theory Spec2Isabelle
  imports Complex_Main
begin

section \<open>Errors\<close>

text \<open>
  Go errors of the renderer package. \<open>ExtError\<close> is an error value handed back by a
  library (chromedp, encoding/json) with its message; \<open>Errorf\<close> is the value built by
  \<^verbatim>\<open>fmt.Errorf\<close>: the formatted message and the operand of \<^verbatim>\<open>%w\<close>, if any; \<open>Panic\<close>
  stands for a run-time panic, which ends the call without a result.
\<close>

datatype error = ExtError string | Errorf string "error option" | Panic string

fun Error :: "error \<Rightarrow> string" where
  "Error (ExtError m) = m"
| "Error (Errorf m _) = m"
| "Error (Panic m) = m"

section \<open>The browser side\<close>

text \<open>
  Contexts (\<^verbatim>\<open>context.Context\<close> values made by chromedp) are identified by numbers; a
  \<^verbatim>\<open>context.CancelFunc\<close> is identified by the context it cancels.
\<close>

type_synonym ctx = nat

datatype ExecAllocatorOption =
    DefaultExecAllocatorOptions
  | Flag string bool
  | ExecPath string

text \<open>Strings inside the page are JavaScript strings: sequences of UTF-16 code units.\<close>

type_synonym js_string = "nat list"

definition js :: "string \<Rightarrow> js_string" where
  "js s = map of_char s"

record DOMRect =
  rect_left :: real
  rect_top :: real
  rect_width :: real
  rect_height :: real

text \<open>
  The element \<^verbatim>\<open>document.querySelector('#container svg')\<close>: its attributes other than
  \<^verbatim>\<open>style\<close>, the declarations of its inline style, its content and its bounding
  client rectangle.
\<close>

record svg_element =
  attributes :: "(js_string \<times> js_string) list"
  style :: "(js_string \<times> js_string) list"
  innerXML :: js_string
  boundingClientRect :: DOMRect

text \<open>
  The document of a tab: the vector element inside the container, if there is one, and the
  text that \<^verbatim>\<open>JSON.stringify(window.__mmd_result || {})\<close> evaluates to.
\<close>

record page =
  container_svg :: "svg_element option"
  mmd_result :: string

datatype RGBA = RGBA int int int real

record Viewport =
  clip_X :: real
  clip_Y :: real
  clip_Width :: real
  clip_Height :: real
  clip_Scale :: real

text \<open>
  The parameters of \<^verbatim>\<open>page.PrintToPDF()\<close>. A field is \<open>None\<close> as long as the code has not
  called its \<^verbatim>\<open>With...\<close> setter.
\<close>

record PrintToPDFParams =
  PaperWidth :: "real option"
  PaperHeight :: "real option"
  MarginTop :: "real option"
  MarginBottom :: "real option"
  MarginLeft :: "real option"
  MarginRight :: "real option"
  PageRanges :: "string option"
  PrintBackground :: "bool option"

text \<open>The four scripts that renderer.go evaluates in the page.\<close>

datatype script = ResultScript | ExtractSVGScript | ExtractSVGFitScript | BoundsScript

datatype cdp_command =
    NoAction
  | SetDeviceMetricsOverride int int real bool
  | Navigate string
  | GetFrameTree
  | SetDocumentContent nat string
  | WaitReady string
  | Evaluate script
  | SetDefaultBackgroundColorOverride "RGBA option"
  | CaptureScreenshot string Viewport bool
  | PrintToPDF PrintToPDFParams

datatype event =
    NewExecAllocator ctx ctx "ExecAllocatorOption list"
  | NewContext ctx ctx
  | WithTimeout ctx ctx int
  | Cancel ctx
  | Sent ctx cdp_command
  | Failed ctx cdp_command error
  | Sleep int

text \<open>
  The state outside the Go program: the next fresh context number, the contexts that were
  made and not cancelled, everything the program did so far, the outcome of the coming
  protocol round trips (\<open>Some e\<close>: the round trip fails with \<open>e\<close>; an exhausted list: no
  further failure), and the tab's document and default background colour override.
\<close>

record world =
  next_ctx :: nat
  live :: "ctx list"
  trace :: "event list"
  faults :: "error option list"
  doc :: page
  bg_override :: "RGBA option"

definition log :: "event \<Rightarrow> world \<Rightarrow> world" where
  "log e w = w\<lparr>trace := trace w @ [e]\<rparr>"

definition fresh :: "(ctx \<Rightarrow> event) \<Rightarrow> world \<Rightarrow> world \<times> ctx" where
  "fresh ev w =
     (let c = next_ctx w
      in (log (ev c) (w\<lparr>next_ctx := Suc c, live := live w @ [c]\<rparr>), c))"

definition cancel :: "ctx \<Rightarrow> world \<Rightarrow> world" where
  "cancel c w = log (Cancel c) (w\<lparr>live := removeAll c (live w)\<rparr>)"

text \<open>
  One action of \<^verbatim>\<open>chromedp.Run\<close> on context \<open>c\<close>: it takes the next scheduled outcome; on
  a failure nothing happens in the browser, otherwise the command's effect \<open>eff\<close> runs.
\<close>

definition cdp :: "ctx \<Rightarrow> cdp_command \<Rightarrow> (world \<Rightarrow> world \<times> (error + 'a)) \<Rightarrow> world \<Rightarrow> world \<times> (error + 'a)" where
  "cdp c cmd eff w =
     (case faults w of
        Some e # fs \<Rightarrow> (log (Failed c cmd e) (w\<lparr>faults := fs\<rparr>), Inl e)
      | _ \<Rightarrow> eff (log (Sent c cmd) (w\<lparr>faults := tl (faults w)\<rparr>)))"

definition ok :: "world \<Rightarrow> world \<times> (error + unit)" where
  "ok w = (w, Inr ())"

section \<open>browser.go\<close>

record BrowserConfig =
  ExecutablePath :: string
  Args :: "string list"
  Timeout :: int
  Headless :: string

record Browser =
  allocCtx :: "ctx option"
  allocCancel :: "ctx option"
  browserCtx :: "ctx option"
  browserCancel :: "ctx option"
  started :: bool
  cfg :: BrowserConfig

definition NewBrowser :: "BrowserConfig option \<Rightarrow> Browser" where
  "NewBrowser c =
     \<lparr>allocCtx = None, allocCancel = None, browserCtx = None, browserCancel = None,
      started = False,
      cfg = (case c of
               None \<Rightarrow> \<lparr>ExecutablePath = [], Args = [], Timeout = 0, Headless = []\<rparr>
             | Some c' \<Rightarrow> c')\<rparr>"

definition allocator_opts :: "BrowserConfig \<Rightarrow> ExecAllocatorOption list" where
  "allocator_opts c =
     [DefaultExecAllocatorOptions,
      Flag ''disable-gpu'' True, Flag ''no-sandbox'' True,
      Flag ''disable-dev-shm-usage'' True, Flag ''disable-setuid-sandbox'' True]
     @ (if ExecutablePath c \<noteq> [] then [ExecPath (ExecutablePath c)] else [])
     @ map (\<lambda>arg. Flag arg True) (Args c)"

text \<open>
  \<^verbatim>\<open>Browser.Context\<close>. The lock is held for the whole call, so the call is one step of a
  sequential model. The browser context is \<open>None\<close> in the result where Go returns nil.
\<close>

definition Context :: "world \<Rightarrow> Browser \<Rightarrow> ctx \<Rightarrow> world \<times> Browser \<times> (error + ctx option)" where
  "Context w b parent =
     (if started b then (w, b, Inr (browserCtx b))
      else
        let opts = allocator_opts (cfg b);
            (w1, a) = fresh (\<lambda>c. NewExecAllocator c parent opts) w;
            (w2, c) = fresh (\<lambda>c. NewContext c a) w1;
            b1 = b\<lparr>allocCtx := Some a, allocCancel := Some a,
                   browserCtx := Some c, browserCancel := Some c\<rparr>
        in case cdp c NoAction ok w2 of
             (w3, Inl err) \<Rightarrow> (cancel a w3, b1, Inl err)
           | (w3, Inr _) \<Rightarrow> (w3, b1\<lparr>started := True\<rparr>, Inr (Some c)))"

text \<open>\<^verbatim>\<open>Browser.Close\<close>, under the same lock.\<close>

definition Close :: "world \<Rightarrow> Browser \<Rightarrow> world \<times> Browser" where
  "Close w b =
     (if \<not> started b then (w, b)
      else
        let w1 = (case browserCancel b of None \<Rightarrow> w | Some c \<Rightarrow> cancel c w);
            w2 = (case allocCancel b of None \<Rightarrow> w1 | Some a \<Rightarrow> cancel a w1)
        in (w2, b\<lparr>started := False\<rparr>))"

section \<open>Go's JSON encoding of a string\<close>

text \<open>
  \<^verbatim>\<open>json.Marshal\<close> of a Go string, as the standard library's encoder does it with HTML
  escaping on (the default). A Go string is a sequence of bytes. The result is the quoted
  string in which the quote and the backslash are preceded by a backslash, the control
  bytes and the characters \<^verbatim>\<open><\<close>, \<^verbatim>\<open>>\<close> and \<^verbatim>\<open>&\<close> are written as a backslash,
  \<^verbatim>\<open>u00\<close> and two hexadecimal digits, a byte that does not start a valid UTF-8 encoding is
  written as the escape of U+FFFD, and U+2028 and U+2029 are written as escapes. The
  tests of the repository (template_test.go) rely on the escaping of the quote, the
  backslash and \<^verbatim>\<open>>\<close>.
\<close>

definition hex :: string where
  "hex = ''0123456789abcdef''"

definition htmlSafeSet :: "char \<Rightarrow> bool" where
  "htmlSafeSet c \<longleftrightarrow>
     0x20 \<le> (of_char c :: nat) \<and> (of_char c :: nat) < 0x80 \<and>
     c \<noteq> CHR 0x22 \<and> c \<noteq> CHR 0x5C \<and> c \<noteq> CHR ''<'' \<and> c \<noteq> CHR ''>'' \<and> c \<noteq> CHR ''&''"

text \<open>The encoding of one byte below \<^verbatim>\<open>utf8.RuneSelf\<close> (0x80).\<close>

definition escape_byte :: "char \<Rightarrow> string" where
  "escape_byte c =
     (if htmlSafeSet c then [c]
      else if c = CHR 0x5C \<or> c = CHR 0x22 then [CHR 0x5C, c]
      else if c = CHR 0x08 then [CHR 0x5C, CHR ''b'']
      else if c = CHR 0x0C then [CHR 0x5C, CHR ''f'']
      else if c = CHR 0x0A then [CHR 0x5C, CHR ''n'']
      else if c = CHR 0x0D then [CHR 0x5C, CHR ''r'']
      else if c = CHR 0x09 then [CHR 0x5C, CHR ''t'']
      else [CHR 0x5C, CHR ''u'', CHR ''0'', CHR ''0'',
            hex ! ((of_char c :: nat) div 16), hex ! ((of_char c :: nat) mod 16)])"

text \<open>
  \<^verbatim>\<open>utf8.DecodeRuneInString\<close>: the first rune of a string of bytes and its width in
  bytes; \<open>(RuneError, 1)\<close> for an encoding that is not valid, \<open>(RuneError, 0)\<close> for the
  empty string.
\<close>

definition RuneError :: nat where
  "RuneError = 0xFFFD"

text \<open>For a leading byte: the width and the range accepted for the second byte.\<close>

definition utf8_first :: "nat \<Rightarrow> (nat \<times> nat \<times> nat) option" where
  "utf8_first b =
     (if 0xC2 \<le> b \<and> b \<le> 0xDF then Some (2, 0x80, 0xBF)
      else if b = 0xE0 then Some (3, 0xA0, 0xBF)
      else if 0xE1 \<le> b \<and> b \<le> 0xEC then Some (3, 0x80, 0xBF)
      else if b = 0xED then Some (3, 0x80, 0x9F)
      else if 0xEE \<le> b \<and> b \<le> 0xEF then Some (3, 0x80, 0xBF)
      else if b = 0xF0 then Some (4, 0x90, 0xBF)
      else if 0xF1 \<le> b \<and> b \<le> 0xF3 then Some (4, 0x80, 0xBF)
      else if b = 0xF4 then Some (4, 0x80, 0x8F)
      else None)"

definition continuation :: "nat \<Rightarrow> bool" where
  "continuation b \<longleftrightarrow> 0x80 \<le> b \<and> b \<le> 0xBF"

definition DecodeRuneInString :: "string \<Rightarrow> nat \<times> nat" where
  "DecodeRuneInString s =
     (case map of_char s of
        [] \<Rightarrow> (RuneError, 0)
      | b0 # bs \<Rightarrow>
          if b0 < 0x80 then (b0, 1) else
          (case utf8_first b0 of
             None \<Rightarrow> (RuneError, 1)
           | Some (sz, lo, hi) \<Rightarrow>
               if length s < sz then (RuneError, 1)
               else
                 let b1 = bs ! 0 in
                 if b1 < lo \<or> hi < b1 then (RuneError, 1)
                 else if sz \<le> 2 then ((b0 mod 32) * 64 + b1 mod 64, 2)
                 else
                   let b2 = bs ! 1 in
                   if \<not> continuation b2 then (RuneError, 1)
                   else if sz \<le> 3 then ((b0 mod 16) * 4096 + (b1 mod 64) * 64 + b2 mod 64, 3)
                   else
                     let b3 = bs ! 2 in
                     if \<not> continuation b3 then (RuneError, 1)
                     else ((b0 mod 8) * 262144 + (b1 mod 64) * 4096 + (b2 mod 64) * 64
                           + b3 mod 64, 4)))"

text \<open>
  The loop of the encoder, on the bytes from index \<open>i\<close> on. The step is the width of the
  rune read, which is at least one byte.
\<close>

function appendString_loop :: "string \<Rightarrow> string" where
  "appendString_loop [] = []"
| "appendString_loop (c # cs) =
     (if (of_char c :: nat) < 0x80 then escape_byte c @ appendString_loop cs
      else
        let rs = DecodeRuneInString (take 4 (c # cs));
            r = fst rs; width = snd rs
        in if r = RuneError \<and> width = 1
           then CHR 0x5C # ''ufffd'' @ appendString_loop (drop width (c # cs))
           else if r = 0x2028 \<or> r = 0x2029
           then CHR 0x5C # ''u202'' @ [hex ! (r mod 16)] @ appendString_loop (drop width (c # cs))
           else take width (c # cs) @ appendString_loop (drop width (c # cs)))"
  by pat_completeness auto
termination
proof (relation "measure length", goal_cases)
  case 1
  show ?case by simp
next
  case (2 c cs)
  show ?case by simp
next
  case (3 c cs rs r n)
  then show ?case by simp
next
  case (4 c cs rs r n)
  have "0 < snd (DecodeRuneInString (take 4 (c # cs)))"
    by (auto simp: DecodeRuneInString_def Let_def utf8_first_def split: option.splits if_splits)
  with 4 show ?case by simp
next
  case (5 c cs rs r n)
  have "0 < snd (DecodeRuneInString (take 4 (c # cs)))"
    by (auto simp: DecodeRuneInString_def Let_def utf8_first_def split: option.splits if_splits)
  with 5 show ?case by simp
qed

definition appendString :: "string \<Rightarrow> string" where
  "appendString s = CHR 0x22 # appendString_loop s @ [CHR 0x22]"

text \<open>\<^verbatim>\<open>json.Marshal(s)\<close> for a string \<open>s\<close>: it has no failing case.\<close>

definition json_Marshal_string :: "string \<Rightarrow> error + string" where
  "json_Marshal_string s = Inr (appendString s)"

section \<open>What the program takes from outside\<close>

record IconPack =
  Name :: string
  URL :: string

record 'cfg RenderOpts =
  MermaidConfig :: 'cfg
  BackgroundColor :: string
  CSS :: string
  SVGId :: string
  Width :: int
  Height :: int
  Scale :: int
  PdfFit :: bool
  SvgFit :: bool
  IconPacks :: "IconPack list"

text \<open>The anonymous struct that \<^verbatim>\<open>Render\<close> decodes the completion record into.\<close>

record renderResult =
  rr_Title :: "string option"
  rr_Desc :: "string option"
  rr_Success :: bool
  rr_Error :: string

record clipRect =
  rect_X :: real
  rect_Y :: real
  rect_Width :: real
  rect_Height :: real

text \<open>
  What is neither in the repository nor decided by it, taken as parameters: the two
  embedded scripts of package web; the library functions \<^verbatim>\<open>json.Marshal\<close> on a
  \<^verbatim>\<open>MermaidConfig\<close> (a map of arbitrary values, of type \<open>'cfg\<close> here),
  \<^verbatim>\<open>strconv.Quote\<close> (the verb \<^verbatim>\<open>%q\<close>) and \<^verbatim>\<open>json.Unmarshal\<close> into the two structs;
  and the browser: the document that results from loading a page's markup and letting its
  scripts run, \<^verbatim>\<open>XMLSerializer.serializeToString\<close>, and the bytes of a screenshot and of
  a print.
\<close>

record 'cfg externals =
  web_MermaidJS :: string
  web_MermaidZenUMLJS :: string
  json_Marshal_config :: "'cfg \<Rightarrow> error + string"
  strconv_Quote :: "string \<Rightarrow> string"
  json_Unmarshal_renderResult :: "string \<Rightarrow> error + renderResult"
  json_Unmarshal_clipRect :: "string \<Rightarrow> error + clipRect"
  load_document :: "string \<Rightarrow> page"
  serializeToString :: "svg_element \<Rightarrow> string"
  screenshot :: "page \<Rightarrow> RGBA option \<Rightarrow> Viewport \<Rightarrow> string"
  print :: "page \<Rightarrow> RGBA option \<Rightarrow> PrintToPDFParams \<Rightarrow> string"

section \<open>icons and config\<close>

definition icon_entry :: "'cfg externals \<Rightarrow> IconPack \<Rightarrow> string" where
  \<open>icon_entry env pack =
     ''  {\<newline>'' @
     ''    name: '' @ strconv_Quote env (Name pack) @ '',\<newline>'' @
     ''    loader: () => fetch('' @ strconv_Quote env (URL pack) @
     '').then((res) => res.json()).catch(() => console.error("Failed to fetch icon: '' @
     Name pack @ ''"))\<newline>'' @
     ''  },\<newline>''\<close>

definition GenerateIconPackJS :: "'cfg externals \<Rightarrow> IconPack list \<Rightarrow> string" where
  "GenerateIconPackJS env packs =
     (if length packs = 0 then []
      else ''mermaid.registerIconPacks([\<newline>'' @ concat (map (icon_entry env) packs)
           @ '']);\<newline>'')"

definition ToJSON :: "'cfg externals \<Rightarrow> 'cfg \<Rightarrow> error + string" where
  "ToJSON env c =
     (case json_Marshal_config env c of Inl err \<Rightarrow> Inl err | Inr data \<Rightarrow> Inr data)"

section \<open>template.go\<close>

definition page_head :: string where
  \<open>page_head =
     ''<!DOCTYPE html>\<newline>'' @
     ''<html>\<newline>'' @
     ''<head>\<newline>'' @
     ''  <style>\<newline>'' @
     ''    body { margin: 0; padding: 0; font-family: sans-serif; }\<newline>'' @
     ''  </style>\<newline>'' @
     ''</head>\<newline>'' @
     ''<body>\<newline>'' @
     ''  <div id="container"></div>\<newline>'' @
     ''  <script>''\<close>

definition page_between_scripts :: string where
  \<open>page_between_scripts =
     ''</script>\<newline>'' @
     ''  <script>''\<close>

definition page_driver_head :: string where
  \<open>page_driver_head =
     ''</script>\<newline>'' @
     ''  <script>\<newline>'' @
     ''    async function renderDiagram() {\<newline>'' @
     ''      try {\<newline>'' @
     ''        const zenuml = globalThis['mermaid-zenuml'];\<newline>'' @
     ''        if (zenuml && zenuml.default) {\<newline>'' @
     ''          await mermaid.registerExternalDiagrams([zenuml.default]);\<newline>'' @
     ''        } else if (zenuml) {\<newline>'' @
     ''          await mermaid.registerExternalDiagrams([zenuml]);\<newline>'' @
     ''        }\<newline>''\<close>

definition driver_initialize :: string where
  \<open>driver_initialize =
     ''\<newline>'' @
     ''        mermaid.initialize({ startOnLoad: false, ...''\<close>

definition driver_definition :: string where
  \<open>driver_definition =
     '' });\<newline>'' @
     ''\<newline>'' @
     ''        const definition = ''\<close>

definition driver_svgId :: string where
  \<open>driver_svgId =
     '';\<newline>'' @
     ''        const svgId = ''\<close>

definition driver_backgroundColor :: string where
  \<open>driver_backgroundColor =
     '' || 'my-svg';\<newline>'' @
     ''        const backgroundColor = ''\<close>

definition driver_myCSS :: string where
  \<open>driver_myCSS =
     '';\<newline>'' @
     ''        const myCSS = ''\<close>

definition driver_tail :: string where
  \<open>driver_tail =
     '';\<newline>'' @
     ''\<newline>'' @
     ''        const container = document.getElementById('container');\<newline>'' @
     ''        const { svg: svgText } = await mermaid.render(svgId, definition, container);\<newline>'' @
     ''        container.innerHTML = svgText;\<newline>'' @
     ''\<newline>'' @
     ''        const svg = container.getElementsByTagName('svg')[0];\<newline>'' @
     ''        if (svg && svg.style) {\<newline>'' @
     ''          svg.style.backgroundColor = backgroundColor;\<newline>'' @
     ''        }\<newline>'' @
     ''\<newline>'' @
     ''        if (myCSS) {\<newline>'' @
     ''          const style = document.createElementNS('http://www.w3.org/2000/svg', 'style');\<newline>'' @
     ''          style.appendChild(document.createTextNode(myCSS));\<newline>'' @
     ''          svg.appendChild(style);\<newline>'' @
     ''        }\<newline>'' @
     ''\<newline>'' @
     ''        // Extract metadata\<newline>'' @
     ''        let title = null;\<newline>'' @
     ''        let desc = null;\<newline>'' @
     ''        if (svg.firstChild && svg.firstChild.nodeName === 'title') {\<newline>'' @
     ''          title = svg.firstChild.textContent;\<newline>'' @
     ''        }\<newline>'' @
     ''        for (const node of svg.children) {\<newline>'' @
     ''          if (node.nodeName === 'desc') {\<newline>'' @
     ''            desc = node.textContent;\<newline>'' @
     ''            break;\<newline>'' @
     ''          }\<newline>'' @
     ''        }\<newline>'' @
     ''\<newline>'' @
     ''        window.__mmd_result = { title, desc, success: true };\<newline>'' @
     ''      } catch (e) {\<newline>'' @
     ''        window.__mmd_result = { error: e.message || String(e), success: false };\<newline>'' @
     ''      }\<newline>'' @
     ''    }\<newline>'' @
     ''    renderDiagram();\<newline>'' @
     ''  </script>\<newline>'' @
     ''</body>\<newline>'' @
     ''</html>''\<close>

text \<open>\<^verbatim>\<open>fmt.Errorf(msg + ": %w", err)\<close>.\<close>

definition wrap :: "string \<Rightarrow> error \<Rightarrow> error" where
  "wrap msg err = Errorf (msg @ Error err) (Some err)"

definition BuildPageHTML :: "'cfg externals \<Rightarrow> string \<Rightarrow> 'cfg RenderOpts \<Rightarrow> error + string" where
  "BuildPageHTML env definition opts =
     (case ToJSON env (MermaidConfig opts) of
        Inl err \<Rightarrow> Inl (wrap ''failed to serialize mermaid config: '' err)
      | Inr mermaidConfigJSON \<Rightarrow>
     (case json_Marshal_string definition of
        Inl err \<Rightarrow> Inl (wrap ''failed to serialize diagram definition: '' err)
      | Inr definitionJSON \<Rightarrow>
     (case json_Marshal_string (SVGId opts) of
        Inl err \<Rightarrow> Inl (wrap ''failed to serialize svgId: '' err)
      | Inr svgIdJSON \<Rightarrow>
     (case json_Marshal_string (BackgroundColor opts) of
        Inl err \<Rightarrow> Inl (wrap ''failed to serialize backgroundColor: '' err)
      | Inr bgColorJSON \<Rightarrow>
     (case json_Marshal_string (CSS opts) of
        Inl err \<Rightarrow> Inl (wrap ''failed to serialize CSS: '' err)
      | Inr cssJSON \<Rightarrow>
          let iconPackJS = GenerateIconPackJS env (IconPacks opts)
          in Inr (page_head @ web_MermaidJS env @ page_between_scripts
                  @ web_MermaidZenUMLJS env @ page_driver_head @ iconPackJS
                  @ driver_initialize @ mermaidConfigJSON
                  @ driver_definition @ definitionJSON
                  @ driver_svgId @ svgIdJSON
                  @ driver_backgroundColor @ bgColorJSON
                  @ driver_myCSS @ cssJSON
                  @ driver_tail))))))"

section \<open>The scripts evaluated in the page\<close>

text \<open>The characters that the regular expression class \<^verbatim>\<open>\s\<close> of JavaScript matches.\<close>

definition js_whitespace :: "nat \<Rightarrow> bool" where
  "js_whitespace c \<longleftrightarrow>
     c = 0x09 \<or> c = 0x0A \<or> c = 0x0B \<or> c = 0x0C \<or> c = 0x0D \<or> c = 0x20 \<or> c = 0xA0 \<or>
     c = 0x1680 \<or> (0x2000 \<le> c \<and> c \<le> 0x200A) \<or> c = 0x2028 \<or> c = 0x2029 \<or>
     c = 0x202F \<or> c = 0x205F \<or> c = 0x3000 \<or> c = 0xFEFF"

text \<open>
  \<^verbatim>\<open>s.split(/\s+/)\<close>: the pieces of \<open>s\<close> between the maximal runs of whitespace; a run at
  the start or at the end leaves an empty piece there.
\<close>

function js_split :: "js_string \<Rightarrow> js_string \<Rightarrow> js_string list" where
  "js_split cur [] = [cur]"
| "js_split cur (c # cs) =
     (if js_whitespace c then cur # js_split [] (dropWhile js_whitespace cs)
      else js_split (cur @ [c]) cs)"
  by pat_completeness auto
termination
  by (relation "measure (\<lambda>(cur, s). length s)")
     (auto simp: less_Suc_eq_le length_dropWhile_le)

definition split_whitespace :: "js_string \<Rightarrow> js_string list" where
  "split_whitespace s = js_split [] s"

definition getAttribute :: "svg_element \<Rightarrow> js_string \<Rightarrow> js_string option" where
  "getAttribute el name = map_of (attributes el) name"

fun set_attr :: "js_string \<Rightarrow> js_string \<Rightarrow> (js_string \<times> js_string) list \<Rightarrow> (js_string \<times> js_string) list" where
  "set_attr name v [] = [(name, v)]"
| "set_attr name v ((n, u) # as) =
     (if n = name then (n, v) # as else (n, u) # set_attr name v as)"

definition setAttribute :: "js_string \<Rightarrow> js_string \<Rightarrow> svg_element \<Rightarrow> svg_element" where
  "setAttribute name v el = el\<lparr>attributes := set_attr name v (attributes el)\<rparr>"

definition removeProperty :: "js_string \<Rightarrow> svg_element \<Rightarrow> svg_element" where
  "removeProperty p el = el\<lparr>style := filter (\<lambda>d. fst d \<noteq> p) (style el)\<rparr>"

text \<open>The decimal text of an integer, as \<^verbatim>\<open>JSON.stringify\<close> writes an integral number.\<close>

fun decimal :: "nat \<Rightarrow> string" where
  "decimal n =
     (if n < 10 then [''0123456789'' ! n]
      else decimal (n div 10) @ [''0123456789'' ! (n mod 10)])"

declare decimal.simps [simp del]

definition number_text :: "int \<Rightarrow> string" where
  "number_text i = (if i < 0 then CHR ''-'' # decimal (nat (- i)) else decimal (nat i))"

definition bounds_text :: "int \<Rightarrow> int \<Rightarrow> int \<Rightarrow> int \<Rightarrow> string" where
  \<open>bounds_text x y w h =
     ''{"x":'' @ number_text x @ '',"y":'' @ number_text y @
     '',"width":'' @ number_text w @ '',"height":'' @ number_text h @ ''}''\<close>

text \<open>
  A script runs on the document and gives the document after it and the string it
  returns. \<open>ResultScript\<close> is \<^verbatim>\<open>JSON.stringify(window.__mmd_result || {})\<close>; the other
  three are the function expressions of \<^verbatim>\<open>extractSVG\<close>, \<^verbatim>\<open>extractSVGFit\<close> and
  \<^verbatim>\<open>getSVGBounds\<close>.
\<close>

definition fit_to_viewBox :: "svg_element \<Rightarrow> svg_element" where
  "fit_to_viewBox svg =
     (case getAttribute svg (js ''viewBox'') of
        None \<Rightarrow> svg
      | Some viewBox \<Rightarrow>
          if viewBox \<noteq> [] then
            let parts = split_whitespace viewBox
            in if length parts = 4
               then removeProperty (js ''max-width'')
                      (setAttribute (js ''height'') (parts ! 3)
                        (setAttribute (js ''width'') (parts ! 2) svg))
               else svg
          else svg)"

definition run_script :: "'cfg externals \<Rightarrow> script \<Rightarrow> page \<Rightarrow> page \<times> string" where
  "run_script env s p =
     (case s of
        ResultScript \<Rightarrow> (p, mmd_result p)
      | ExtractSVGScript \<Rightarrow>
          (case container_svg p of
             None \<Rightarrow> (p, [])
           | Some svg \<Rightarrow> (p, serializeToString env svg))
      | ExtractSVGFitScript \<Rightarrow>
          (case container_svg p of
             None \<Rightarrow> (p, [])
           | Some svg \<Rightarrow>
               (p\<lparr>container_svg := Some (fit_to_viewBox svg)\<rparr>,
                serializeToString env (fit_to_viewBox svg)))
      | BoundsScript \<Rightarrow>
          (case container_svg p of
             None \<Rightarrow> (p, bounds_text 0 0 800 600)
           | Some svg \<Rightarrow>
               let rect = boundingClientRect svg
               in (p, bounds_text \<lfloor>rect_left rect\<rfloor> \<lfloor>rect_top rect\<rfloor>
                        \<lceil>rect_width rect\<rceil> \<lceil>rect_height rect\<rceil>)))"

section \<open>The effects of the protocol commands\<close>

definition evaluate :: "'cfg externals \<Rightarrow> script \<Rightarrow> world \<Rightarrow> world \<times> (error + string)" where
  "evaluate env s w =
     (let (p, out) = run_script env s (doc w) in (w\<lparr>doc := p\<rparr>, Inr out))"

definition blank_page :: page where
  "blank_page = \<lparr>container_svg = None, mmd_result = ''{}''\<rparr>"

definition navigated :: "world \<Rightarrow> world \<times> (error + unit)" where
  "navigated w = (w\<lparr>doc := blank_page\<rparr>, Inr ())"

definition frame_tree :: "ctx \<Rightarrow> world \<Rightarrow> world \<times> (error + nat)" where
  "frame_tree c w = (w, Inr c)"

definition content_set :: "'cfg externals \<Rightarrow> string \<Rightarrow> world \<Rightarrow> world \<times> (error + unit)" where
  "content_set env html w = (w\<lparr>doc := load_document env html\<rparr>, Inr ())"

text \<open>
  The wait for the selector ends when the element is there; when it never comes, the wait
  ends with the error of the context, whose deadline has passed.
\<close>

definition waited :: "world \<Rightarrow> world \<times> (error + unit)" where
  "waited w =
     (case container_svg (doc w) of
        None \<Rightarrow> (w, Inl (ExtError ''context deadline exceeded''))
      | Some _ \<Rightarrow> (w, Inr ()))"

definition background_set :: "RGBA option \<Rightarrow> world \<Rightarrow> world \<times> (error + unit)" where
  "background_set c w = (w\<lparr>bg_override := c\<rparr>, Inr ())"

definition captured :: "'cfg externals \<Rightarrow> Viewport \<Rightarrow> world \<Rightarrow> world \<times> (error + string)" where
  "captured env clip w = (w, Inr (screenshot env (doc w) (bg_override w) clip))"

definition printed :: "'cfg externals \<Rightarrow> PrintToPDFParams \<Rightarrow> world \<Rightarrow> world \<times> (error + string)" where
  "printed env ps w = (w, Inr (print env (doc w) (bg_override w) ps))"

section \<open>renderer.go\<close>

text \<open>Sequencing of steps that may fail, as the early returns of the Go code do it.\<close>

definition bind :: "(world \<Rightarrow> world \<times> (error + 'a)) \<Rightarrow> ('a \<Rightarrow> world \<Rightarrow> world \<times> (error + 'b)) \<Rightarrow> world \<Rightarrow> world \<times> (error + 'b)" where
  "bind m f w = (case m w of (w', Inl e) \<Rightarrow> (w', Inl e) | (w', Inr a) \<Rightarrow> f a w')"

definition return :: "'a \<Rightarrow> world \<Rightarrow> world \<times> (error + 'a)" where
  "return a w = (w, Inr a)"

definition fail :: "error \<Rightarrow> world \<Rightarrow> world \<times> (error + 'a)" where
  "fail e w = (w, Inl e)"

text \<open>\<^verbatim>\<open>if err := m; err != nil { return nil, fmt.Errorf(msg + ": %w", err) }\<close>.\<close>

definition wrapped :: "string \<Rightarrow> (world \<Rightarrow> world \<times> (error + 'a)) \<Rightarrow> world \<Rightarrow> world \<times> (error + 'a)" where
  "wrapped msg m w =
     (case m w of (w', Inl err) \<Rightarrow> (w', Inl (wrap msg err)) | (w', Inr a) \<Rightarrow> (w', Inr a))"

text \<open>\<^verbatim>\<open>_ = m\<close>: the error is dropped.\<close>

definition ignored :: "(world \<Rightarrow> world \<times> (error + unit)) \<Rightarrow> world \<Rightarrow> world \<times> (error + unit)" where
  "ignored m w = (fst (m w), Inr ())"

text \<open>\<^verbatim>\<open>time.Duration\<close> counts nanoseconds.\<close>

definition Millisecond :: int where
  "Millisecond = 1000000"

definition Second :: int where
  "Second = 1000 * Millisecond"

definition time_Sleep :: "int \<Rightarrow> world \<Rightarrow> world \<times> (error + unit)" where
  "time_Sleep d w = (log (Sleep d) w, Inr ())"

text \<open>
  The conversion \<^verbatim>\<open>int64(f)\<close> of a float: the fraction is dropped. The float is a real
  number here and the integer is unbounded.
\<close>

definition int64 :: "real \<Rightarrow> int" where
  "int64 f = (if 0 \<le> f then \<lfloor>f\<rfloor> else \<lceil>f\<rceil>)"

definition extractSVG :: "'cfg externals \<Rightarrow> ctx \<Rightarrow> world \<Rightarrow> world \<times> (error + string)" where
  "extractSVG env c =
     bind (wrapped ''failed to extract SVG: '' (cdp c (Evaluate ExtractSVGScript) (evaluate env ExtractSVGScript)))
       (\<lambda>svgXML.
          if svgXML = [] then fail (Errorf ''no SVG element found in rendered output'' None)
          else return svgXML)"

definition extractSVGFit :: "'cfg externals \<Rightarrow> ctx \<Rightarrow> world \<Rightarrow> world \<times> (error + string)" where
  "extractSVGFit env c =
     bind (wrapped ''failed to extract SVG: '' (cdp c (Evaluate ExtractSVGFitScript) (evaluate env ExtractSVGFitScript)))
       (\<lambda>svgXML.
          if svgXML = [] then fail (Errorf ''no SVG element found in rendered output'' None)
          else return svgXML)"

definition getSVGBounds :: "'cfg externals \<Rightarrow> ctx \<Rightarrow> world \<Rightarrow> world \<times> (error + clipRect)" where
  "getSVGBounds env c =
     bind (wrapped ''failed to get SVG bounds: '' (cdp c (Evaluate BoundsScript) (evaluate env BoundsScript)))
       (\<lambda>boundsJSON.
          case json_Unmarshal_clipRect env boundsJSON of
            Inl err \<Rightarrow> fail (wrap ''failed to parse SVG bounds: '' err)
          | Inr bounds \<Rightarrow> return bounds)"

definition transparent :: RGBA where
  "transparent = RGBA 0 0 0 0"

definition capturePNG :: "'cfg externals \<Rightarrow> ctx \<Rightarrow> 'cfg RenderOpts \<Rightarrow> world \<Rightarrow> world \<times> (error + string)" where
  "capturePNG env c opts =
     bind (getSVGBounds env c) (\<lambda>bounds.
       let newWidth = int64 (rect_X bounds + rect_Width bounds);
           newHeight = int64 (rect_Y bounds + rect_Height bounds)
       in
     bind (wrapped ''failed to resize viewport for PNG: ''
             (cdp c (SetDeviceMetricsOverride newWidth newHeight (of_int (Scale opts)) False) ok)) (\<lambda>_.
     bind (time_Sleep (100 * Millisecond)) (\<lambda>_.
       let clip = \<lparr>clip_X = rect_X bounds, clip_Y = rect_Y bounds,
                   clip_Width = rect_Width bounds, clip_Height = rect_Height bounds,
                   clip_Scale = 1\<rparr>
       in
     bind (if BackgroundColor opts = ''transparent''
           then wrapped ''failed to set transparent background: ''
                  (cdp c (SetDefaultBackgroundColorOverride (Some transparent))
                     (background_set (Some transparent)))
           else ok) (\<lambda>_.
     bind (wrapped ''failed to capture PNG: ''
             (cdp c (CaptureScreenshot ''png'' clip True) (captured env clip))) (\<lambda>buf.
     bind (if BackgroundColor opts = ''transparent''
           then ignored (cdp c (SetDefaultBackgroundColorOverride None) (background_set None))
           else ok) (\<lambda>_.
     return buf))))))"

definition PrintToPDF_default :: PrintToPDFParams where
  "PrintToPDF_default =
     \<lparr>PaperWidth = None, PaperHeight = None, MarginTop = None, MarginBottom = None,
      MarginLeft = None, MarginRight = None, PageRanges = None, PrintBackground = None\<rparr>"

definition capturePDF :: "'cfg externals \<Rightarrow> ctx \<Rightarrow> 'cfg RenderOpts \<Rightarrow> world \<Rightarrow> world \<times> (error + string)" where
  "capturePDF env c opts =
     bind (if BackgroundColor opts = ''transparent''
           then wrapped ''failed to set transparent background: ''
                  (cdp c (SetDefaultBackgroundColorOverride (Some transparent))
                     (background_set (Some transparent)))
           else ok) (\<lambda>_.
     bind (if PdfFit opts
           then bind (getSVGBounds env c) (\<lambda>bounds.
                  let widthInches = (of_int \<lceil>rect_Width bounds\<rceil> + rect_X bounds * 2) / 96;
                      heightInches = (of_int \<lceil>rect_Height bounds\<rceil> + rect_Y bounds * 2) / 96
                  in return (PrintToPDF_default
                       \<lparr>PaperWidth := Some widthInches, PaperHeight := Some heightInches,
                        MarginTop := Some 0, MarginBottom := Some 0,
                        MarginLeft := Some 0, MarginRight := Some 0,
                        PageRanges := Some ''1-1''\<rparr>))
           else return PrintToPDF_default) (\<lambda>printParams0.
       let printParams = printParams0\<lparr>PrintBackground := Some True\<rparr>
       in
     bind (wrapped ''failed to generate PDF: ''
             (cdp c (PrintToPDF printParams) (printed env printParams))) (\<lambda>buf.
     bind (if BackgroundColor opts = ''transparent''
           then ignored (cdp c (SetDefaultBackgroundColorOverride None) (background_set None))
           else ok) (\<lambda>_.
     return buf))))"

record RenderResult =
  Data :: string
  Title :: string
  Desc :: string

text \<open>
  \<^verbatim>\<open>Render\<close> in the tab context \<open>c\<close>, in the four parts that its comments name. First
  the page is built and loaded.
\<close>

definition load_page :: "'cfg externals \<Rightarrow> ctx \<Rightarrow> string \<Rightarrow> 'cfg RenderOpts \<Rightarrow> world \<Rightarrow> world \<times> (error + unit)" where
  "load_page env c definition opts =
     bind (\<lambda>w. case BuildPageHTML env definition opts of
                  Inl err \<Rightarrow> (w, Inl (wrap ''failed to build page HTML: '' err))
                | Inr pageHTML \<Rightarrow> (w, Inr pageHTML)) (\<lambda>pageHTML.
     bind (wrapped ''failed to set viewport: ''
             (cdp c (SetDeviceMetricsOverride (Width opts) (Height opts) (of_int (Scale opts)) False) ok)) (\<lambda>_.
     bind (wrapped ''failed to navigate: ''
             (bind (cdp c (Navigate ''about:blank'') navigated) (\<lambda>_.
                cdp c GetFrameTree (frame_tree c)))) (\<lambda>frame.
     wrapped ''failed to set page content: ''
       (cdp c (SetDocumentContent frame pageHTML) (content_set env pageHTML)))))"

text \<open>Wait for rendering to complete.\<close>

definition wait_rendered :: "'cfg externals \<Rightarrow> ctx \<Rightarrow> world \<Rightarrow> world \<times> (error + unit)" where
  "wait_rendered env c w =
     (case cdp c (WaitReady ''#container svg'') waited w of
        (w1, Inl err) \<Rightarrow>
          (case cdp c (Evaluate ResultScript) (evaluate env ResultScript) w1 of
             (w2, r) \<Rightarrow>
               let resultJSON = (case r of Inl _ \<Rightarrow> [] | Inr s \<Rightarrow> s)
               in (w2, Inl (Errorf (''mermaid rendering failed (waited for SVG): '' @ Error err
                             @ ''\<newline>render result: '' @ resultJSON) (Some err))))
      | (w1, Inr u) \<Rightarrow> (w1, Inr u))"

text \<open>Check for errors in the render result; the result is still without its data.\<close>

definition read_result :: "'cfg externals \<Rightarrow> ctx \<Rightarrow> world \<Rightarrow> world \<times> (error + RenderResult)" where
  "read_result env c =
     bind (wrapped ''failed to get render result: ''
             (cdp c (Evaluate ResultScript) (evaluate env ResultScript))) (\<lambda>resultJSON.
       case json_Unmarshal_renderResult env resultJSON of
         Inl err \<Rightarrow> fail (wrap ''failed to parse render result: '' err)
       | Inr renderResult \<Rightarrow>
           if \<not> rr_Success renderResult
           then fail (Errorf (''mermaid rendering error: '' @ rr_Error renderResult) None)
           else return \<lparr>Data = [],
                         Title = (case rr_Title renderResult of None \<Rightarrow> [] | Some t \<Rightarrow> t),
                         Desc = (case rr_Desc renderResult of None \<Rightarrow> [] | Some d \<Rightarrow> d)\<rparr>)"

text \<open>The \<^verbatim>\<open>switch outputFormat\<close>.\<close>

definition switch_outputFormat :: "'cfg externals \<Rightarrow> ctx \<Rightarrow> string \<Rightarrow> 'cfg RenderOpts \<Rightarrow> RenderResult \<Rightarrow> world \<Rightarrow> world \<times> (error + RenderResult)" where
  "switch_outputFormat env c outputFormat opts result =
     (if outputFormat = ''svg'' then
        bind (if SvgFit opts then extractSVGFit env c else extractSVG env c)
          (\<lambda>data. return (result\<lparr>Data := data\<rparr>))
      else if outputFormat = ''png'' then
        bind (capturePNG env c opts) (\<lambda>data. return (result\<lparr>Data := data\<rparr>))
      else if outputFormat = ''pdf'' then
        bind (capturePDF env c opts) (\<lambda>data. return (result\<lparr>Data := data\<rparr>))
      else fail (Errorf (''unsupported output format: '' @ outputFormat) None))"

text \<open>Everything before the switch, and the whole call in its tab.\<close>

definition await_result :: "'cfg externals \<Rightarrow> ctx \<Rightarrow> string \<Rightarrow> 'cfg RenderOpts \<Rightarrow> world \<Rightarrow> world \<times> (error + RenderResult)" where
  "await_result env c definition opts =
     bind (load_page env c definition opts) (\<lambda>_.
     bind (wait_rendered env c) (\<lambda>_.
     read_result env c))"

definition render_in_tab :: "'cfg externals \<Rightarrow> ctx \<Rightarrow> string \<Rightarrow> string \<Rightarrow> 'cfg RenderOpts \<Rightarrow> world \<Rightarrow> world \<times> (error + RenderResult)" where
  "render_in_tab env c definition outputFormat opts =
     bind (await_result env c definition opts) (switch_outputFormat env c outputFormat opts)"

text \<open>
  The new tab of a call, made from the browser context, and the context with the deadline
  of 60 seconds that the call then works in. A new tab has an empty document and no
  background override.
\<close>

definition open_tab :: "world \<Rightarrow> ctx \<Rightarrow> world \<times> ctx \<times> ctx" where
  "open_tab w bctx =
     (let (w2, tabCtx0) = fresh (\<lambda>c. NewContext c bctx) w;
          w3 = w2\<lparr>doc := blank_page, bg_override := None\<rparr>;
          (w4, tabCtx) = fresh (\<lambda>c. WithTimeout c tabCtx0 (60 * Second)) w3
      in (w4, tabCtx0, tabCtx))"

text \<open>
  \<^verbatim>\<open>Renderer.Render\<close>. The renderer holds only its browser. The two deferred
  cancellations run on every return after they were registered, the later one first. A
  nil browser context, which \<^verbatim>\<open>Browser.Context\<close> does not return from a session it
  started, is a nil-pointer panic in \<^verbatim>\<open>chromedp.NewContext\<close>.
\<close>

definition Render :: "'cfg externals \<Rightarrow> world \<Rightarrow> Browser \<Rightarrow> ctx \<Rightarrow> string \<Rightarrow> string \<Rightarrow> 'cfg RenderOpts \<Rightarrow> world \<times> Browser \<times> (error + RenderResult)" where
  "Render env w b parent definition outputFormat opts =
     (case Context w b parent of
        (w1, b1, Inl err) \<Rightarrow> (w1, b1, Inl (wrap ''failed to start browser: '' err))
      | (w1, b1, Inr None) \<Rightarrow>
          (w1, b1, Inl (Panic ''invalid memory address or nil pointer dereference''))
      | (w1, b1, Inr (Some bctx)) \<Rightarrow>
          let (w4, tabCtx0, tabCtx) = open_tab w1 bctx;
              (w5, r) = render_in_tab env tabCtx definition outputFormat opts w4
          in (cancel tabCtx0 (cancel tabCtx w5), b1, r))"

text \<open>The print requests among the events, whether they went through or not.\<close>

fun print_requests :: "event list \<Rightarrow> PrintToPDFParams list" where
  "print_requests [] = []"
| "print_requests (Sent c (PrintToPDF ps) # es) = ps # print_requests es"
| "print_requests (Failed c (PrintToPDF ps) e # es) = ps # print_requests es"
| "print_requests (_ # es) = print_requests es"

section \<open>Reading a string literal\<close>

text \<open>
  What it means that an embedded value cannot end the script context early: a reader that
  takes a JSON string token off the front of a text. The token is a quote, then
  characters other than the quote, the backslash and the control characters, or escapes
  (a backslash and one of the eight simple escape characters, or a backslash, \<^verbatim>\<open>u\<close> and
  four hexadecimal digits), then the closing quote. Every such token is a string literal
  of JavaScript as well. The reader gives the token and the text after it.
\<close>

definition hex_digit :: "char \<Rightarrow> bool" where
  "hex_digit c \<longleftrightarrow> c \<in> set ''0123456789abcdefABCDEF''"

function json_string_chars :: "string \<Rightarrow> (string \<times> string) option" where
  "json_string_chars [] = None"
| "json_string_chars (c # cs) =
     (if c = CHR 0x22 then Some ([c], cs)
      else if c = CHR 0x5C then
        (case cs of
           [] \<Rightarrow> None
         | d # ds \<Rightarrow>
             if d \<in> set [CHR 0x22, CHR 0x5C, CHR ''/'', CHR ''b'', CHR ''f'', CHR ''n'', CHR ''r'', CHR ''t'']
             then map_option (\<lambda>(l, r). (c # d # l, r)) (json_string_chars ds)
             else if d = CHR ''u'' \<and> 4 \<le> length ds \<and> list_all hex_digit (take 4 ds)
             then map_option (\<lambda>(l, r). (c # d # take 4 ds @ l, r)) (json_string_chars (drop 4 ds))
             else None)
      else if (of_char c :: nat) < 0x20 then None
      else map_option (\<lambda>(l, r). (c # l, r)) (json_string_chars cs))"
  by pat_completeness auto
termination
  by (relation "measure length") auto

definition json_string_token :: "string \<Rightarrow> (string \<times> string) option" where
  "json_string_token s =
     (case s of
        [] \<Rightarrow> None
      | c # cs \<Rightarrow>
          if c = CHR 0x22 then map_option (\<lambda>(l, r). (c # l, r)) (json_string_chars cs) else None)"

text \<open>The bytes that stand for themselves in a token and are no angle bracket.\<close>

definition plain :: "char \<Rightarrow> bool" where
  "plain c \<longleftrightarrow> 0x20 \<le> (of_char c :: nat) \<and> c \<noteq> CHR 0x22 \<and> c \<noteq> CHR 0x5C \<and> c \<noteq> CHR ''<'' \<and> c \<noteq> CHR ''>''"

section \<open>A concrete environment\<close>

text \<open>
  One instance of what the program takes from outside, for running the definitions. A
  configuration is \<open>Some theme\<close>, the map with the single key \<^verbatim>\<open>theme\<close>, or \<open>None\<close>, a map
  that holds a value without a JSON encoding (a channel, say). The decoders know the texts
  that occur below.
\<close>

definition example_svg :: svg_element where
  "example_svg =
     \<lparr>attributes = [(js ''id'', js ''my-svg''), (js ''width'', js ''100%''),
                    (js ''viewBox'', js ''0 0 120.5 80'')],
      style = [(js ''max-width'', js ''120.5px''), (js ''background-color'', js ''white'')],
      innerXML = js ''<g></g>'',
      boundingClientRect =
        \<lparr>rect_left = 8, rect_top = 17 / 2, rect_width = 241 / 2, rect_height = 80\<rparr>\<rparr>"

definition example_page :: page where
  \<open>example_page =
     \<lparr>container_svg = Some example_svg,
      mmd_result = ''{"title":null,"desc":null,"success":true}''\<rparr>\<close>

definition failed_page :: page where
  \<open>failed_page =
     \<lparr>container_svg = None,
      mmd_result = ''{"error":"No diagram type detected","success":false}''\<rparr>\<close>

definition example_attr :: "js_string \<times> js_string \<Rightarrow> string" where
  \<open>example_attr a = '' '' @ map char_of (fst a) @ ''="'' @ map char_of (snd a) @ ''"''\<close>

definition example_env :: "string option externals" where
  \<open>example_env =
     \<lparr>web_MermaidJS = ''/* mermaid */'',
      web_MermaidZenUMLJS = ''/* zenuml */'',
      json_Marshal_config =
        (\<lambda>c. case c of
               None \<Rightarrow> Inl (ExtError ''json: unsupported type: chan int'')
             | Some theme \<Rightarrow> Inr (''{"theme":'' @ appendString theme @ ''}'')),
      strconv_Quote = (\<lambda>s. CHR 0x22 # s @ [CHR 0x22]),
      json_Unmarshal_renderResult =
        (\<lambda>s. if s = ''{"title":null,"desc":null,"success":true}''
             then Inr \<lparr>rr_Title = None, rr_Desc = None, rr_Success = True, rr_Error = []\<rparr>
             else if s = ''{}''
             then Inr \<lparr>rr_Title = None, rr_Desc = None, rr_Success = False, rr_Error = []\<rparr>
             else Inl (ExtError ''unexpected end of JSON input'')),
      json_Unmarshal_clipRect =
        (\<lambda>s. if s = ''{"x":0,"y":0,"width":800,"height":600}''
             then Inr \<lparr>rect_X = 0, rect_Y = 0, rect_Width = 800, rect_Height = 600\<rparr>
             else if s = ''{"x":8,"y":8,"width":121,"height":80}''
             then Inr \<lparr>rect_X = 8, rect_Y = 8, rect_Width = 121, rect_Height = 80\<rparr>
             else Inl (ExtError ''unexpected end of JSON input'')),
      load_document = (\<lambda>html. example_page),
      serializeToString =
        (\<lambda>el. ''<svg'' @ concat (map example_attr (attributes el)) @ ''>''
              @ map char_of (innerXML el) @ ''</svg>''),
      screenshot = (\<lambda>p bg clip. ''PNG''),
      print = (\<lambda>p bg ps. ''%PDF'')\<rparr>\<close>

definition example_opts :: "string option RenderOpts" where
  "example_opts =
     \<lparr>MermaidConfig = Some ''default'', BackgroundColor = ''white'', CSS = [], SVGId = [],
      Width = 800, Height = 600, Scale = 1, PdfFit = False, SvgFit = False, IconPacks = []\<rparr>"

text \<open>
  A world in which context 0 is the caller's context and nothing has happened yet, and the
  tab of a call (context 4) after its page was rendered, with the outcomes \<open>fs\<close> to come.
\<close>

definition example_world :: world where
  "example_world =
     \<lparr>next_ctx = 1, live = [0], trace = [], faults = [], doc = blank_page, bg_override = None\<rparr>"

definition rendered_world :: "page \<Rightarrow> error option list \<Rightarrow> world" where
  "rendered_world p fs =
     \<lparr>next_ctx = 5, live = [0, 1, 2, 3, 4], trace = [], faults = fs, doc = p, bg_override = None\<rparr>"

section \<open>Session manager\<close>

lemmas run_defs = bind_def return_def fail_def wrapped_def ignored_def cdp_def ok_def log_def
  fresh_def cancel_def wrap_def evaluate_def navigated_def frame_tree_def content_set_def
  waited_def background_set_def captured_def printed_def time_Sleep_def

lemma Close_not_started: "\<not> started (snd (Close w b))"
  by (simp add: Close_def Let_def)

text \<open>
  C8. Release is idempotent: on a session that was never started, and on any session that
  is not started, \<^verbatim>\<open>Close\<close> changes neither the session nor anything outside it; and
  whatever the state of the session, a second \<^verbatim>\<open>Close\<close> right after a first one changes
  nothing and cancels nothing.
\<close>

theorem Close_idempotent:
  "Close w (NewBrowser c) = (w, NewBrowser c) \<and>
   Close w (b\<lparr>started := False\<rparr>) = (w, b\<lparr>started := False\<rparr>) \<and>
   Close (fst (Close w b)) (snd (Close w b)) = Close w b \<and>
   trace (fst (Close (fst (Close w b)) (snd (Close w b)))) = trace (fst (Close w b)) \<and>
   live (fst (Close (fst (Close w b)) (snd (Close w b)))) = live (fst (Close w b))"
proof -
  have 1: "Close w (NewBrowser c) = (w, NewBrowser c)"
    by (simp add: Close_def NewBrowser_def)
  have 2: "Close w (b\<lparr>started := False\<rparr>) = (w, b\<lparr>started := False\<rparr>)"
    by (simp add: Close_def)
  have 3: "Close (fst (Close w b)) (snd (Close w b)) = Close w b"
    using Close_not_started [of w b] by (simp add: Close_def [of "fst (Close w b)"])
  from 1 2 3 show ?thesis by simp
qed

lemma Close_frame: "next_ctx (fst (Close w b)) = next_ctx w \<and> faults (fst (Close w b)) = faults w"
  by (simp add: Close_def Let_def cancel_def log_def split: option.splits)

text \<open>
  C10. After \<^verbatim>\<open>Close\<close> on a started session the flag \<open>started\<close> is false, and the next
  \<^verbatim>\<open>Context\<close> does not hand back the closed context \<open>h\<close>: it makes a new allocator and
  a new browser context and starts a browser on it. If that start fails the session stays
  not started; otherwise the new context, which is live and is not \<open>h\<close>, is returned and
  the session is started again.
\<close>

theorem Close_then_Context_relaunches:
  assumes "started b" and "browserCtx b = Some h" and "h < next_ctx w"
    and "Close w b = (w1, b1)" and "Context w1 b1 parent = (w2, b2, r)"
  shows "\<not> started b1 \<and>
    (let n = next_ctx w;
         launch = [NewExecAllocator n parent (allocator_opts (cfg b)), NewContext (Suc n) n]
     in case faults w of
          Some e # fs \<Rightarrow>
            r = Inl e \<and> \<not> started b2 \<and>
            trace w2 = trace w1 @ launch @ [Failed (Suc n) NoAction e, Cancel n]
        | _ \<Rightarrow>
            r = Inr (Some (Suc n)) \<and> Suc n \<noteq> h \<and> started b2 \<and> Suc n \<in> set (live w2) \<and>
            trace w2 = trace w1 @ launch @ [Sent (Suc n) NoAction])"
proof -
  have b1: "b1 = b\<lparr>started := False\<rparr>" and nf: "next_ctx w1 = next_ctx w" "faults w1 = faults w"
    using assms(1,4) Close_frame [of w b] by (auto simp: Close_def Let_def)
  show ?thesis
    using assms(3,5) b1 nf
    by (auto simp: Context_def fresh_def cdp_def ok_def log_def cancel_def Let_def
        split: list.splits option.splits)
qed

theorem Close_then_Context_relaunches_witness:
  "started (fst (snd (Context example_world (NewBrowser None) 0))) \<and>
   snd (snd (Context example_world (NewBrowser None) 0)) = Inr (Some 2) \<and>
   snd (snd (Context
     (fst (Close (fst (Context example_world (NewBrowser None) 0))
                 (fst (snd (Context example_world (NewBrowser None) 0)))))
     (snd (Close (fst (Context example_world (NewBrowser None) 0))
                 (fst (snd (Context example_world (NewBrowser None) 0))))) 0))
   = Inr (Some 4)"
proof -
  obtain w b where c: "Context example_world (NewBrowser None) 0 = (w, b, Inr (Some 2))"
    and s: "started b" and h: "browserCtx b = Some 2" and n: "next_ctx w = 3"
    and f: "faults w = []"
    by (simp add: Context_def NewBrowser_def example_world_def fresh_def cdp_def ok_def
        log_def Let_def)
  obtain w1 b1 where cl: "Close w b = (w1, b1)" by force
  obtain w2 b2 r where cx: "Context w1 b1 0 = (w2, b2, r)" by (metis prod_cases3)
  have "2 < next_ctx w" using n by simp
  from Close_then_Context_relaunches [OF s h this cl cx] n f
  have "r = Inr (Some 4)" by (simp add: Let_def)
  with c s cl cx show ?thesis by simp
qed

section \<open>Page builder\<close>

lemma chars_plain:
  "list_all plain u \<Longrightarrow> json_string_chars (u @ xs) = map_option (\<lambda>(l, r). (u @ l, r)) (json_string_chars xs)"
proof (induction u)
  case Nil
  show ?case by (simp add: option.map_ident)
next
  case (Cons a u)
  then show ?case
    by (auto simp: plain_def option.map_comp comp_def split_def)
qed

lemma chars_simple_escape:
  "d \<in> set [CHR 0x22, CHR 0x5C, CHR ''/'', CHR ''b'', CHR ''f'', CHR ''n'', CHR ''r'', CHR ''t''] \<Longrightarrow>
   json_string_chars (CHR 0x5C # d # xs) = map_option (\<lambda>(l, r). (CHR 0x5C # d # l, r)) (json_string_chars xs)"
  by simp

lemma chars_u_escape:
  "list_all hex_digit [a, b, c, d] \<Longrightarrow>
   json_string_chars (CHR 0x5C # CHR ''u'' # a # b # c # d # xs) =
     map_option (\<lambda>(l, r). (CHR 0x5C # CHR ''u'' # a # b # c # d # l, r)) (json_string_chars xs)"
  by simp

lemma hex_nth: "n < 16 \<Longrightarrow> hex_digit (hex ! n)"
proof -
  assume n: "n < 16"
  have "list_all hex_digit hex" by (simp add: hex_def hex_digit_def)
  moreover have "length hex = 16" by (simp add: hex_def)
  ultimately show ?thesis using n by (simp add: list_all_length)
qed

lemma escape_byte_chars:
  "(of_char c :: nat) < 0x80 \<Longrightarrow>
   json_string_chars (escape_byte c @ xs) = map_option (\<lambda>(l, r). (escape_byte c @ l, r)) (json_string_chars xs)"
proof -
  assume c: "(of_char c :: nat) < 0x80"
  have h1: "hex_digit (hex ! ((of_char c :: nat) div 16))" using c by (intro hex_nth) simp
  have h2: "hex_digit (hex ! ((of_char c :: nat) mod 16))" by (intro hex_nth) simp
  have z: "hex_digit CHR ''0''" by (simp add: hex_digit_def)
  show ?thesis
  proof (cases "htmlSafeSet c")
    case True
    then have "list_all plain [c]" by (simp add: htmlSafeSet_def plain_def)
    from chars_plain [OF this, of xs] True show ?thesis by (simp add: escape_byte_def)
  next
    case False
    then show ?thesis
      using h1 h2 z by (simp add: escape_byte_def del: json_string_chars.simps add: chars_simple_escape chars_u_escape)
  qed
qed


lemma high_plain: "0x80 \<le> (of_char c :: nat) \<Longrightarrow> plain c"
  by (auto simp: plain_def)

lemma utf8_first_Some:
  "utf8_first b = Some (sz, lo, hi) \<Longrightarrow> 0x80 \<le> b \<and> 0x80 \<le> lo \<and> 2 \<le> sz \<and> sz \<le> 4"
  by (auto simp: utf8_first_def split: if_splits)

lemma decode_cases:
  assumes "DecodeRuneInString (take 4 (c # cs)) = (r, n)" and hi: "\<not> (of_char c :: nat) < 0x80"
  shows "(r = RuneError \<and> n = 1) \<or>
         (2 \<le> n \<and> n \<le> length (c # cs) \<and> list_all plain (take n (c # cs)))"
proof (cases "utf8_first (of_char c)")
  case None
  with assms show ?thesis by (simp add: DecodeRuneInString_def)
next
  case (Some t)
  obtain sz lo hi where t: "t = (sz, lo, hi)" by (cases t)
  from utf8_first_Some Some t have b: "0x80 \<le> (of_char c :: nat)" "0x80 \<le> lo" "2 \<le> sz" "sz \<le> 4"
    by blast+
  have pc: "plain c" using b(1) by (rule high_plain)
  show ?thesis
  proof (cases "r = RuneError \<and> n = 1")
    case True
    then show ?thesis by simp
  next
    case False
    consider "cs = []" | b1 where "cs = [b1]" | b1 b2 where "cs = [b1, b2]"
      | b1 b2 b3 tl where "cs = b1 # b2 # b3 # tl"
      by (metis list.exhaust)
    then show ?thesis
    proof cases
      case 1
      with assms Some t b False show ?thesis by (simp add: DecodeRuneInString_def)
    next
      case 2
      with assms Some t b False pc show ?thesis
        by (auto simp: DecodeRuneInString_def Let_def continuation_def split: if_splits intro!: high_plain)
    next
      case 3
      with assms Some t b False pc show ?thesis
        by (auto simp: DecodeRuneInString_def Let_def continuation_def split: if_splits intro!: high_plain)
    next
      case 4
      with assms Some t b False pc show ?thesis
        by (auto simp: DecodeRuneInString_def Let_def continuation_def split: if_splits intro!: high_plain)
    qed
  qed
qed


lemma loop_high:
  assumes "\<not> (of_char c :: nat) < 0x80" and "DecodeRuneInString (take 4 (c # cs)) = (r, n)"
  shows "appendString_loop (c # cs) =
     (if r = RuneError \<and> n = 1
      then CHR 0x5C # ''ufffd'' @ appendString_loop (drop n (c # cs))
      else if r = 0x2028 \<or> r = 0x2029
      then CHR 0x5C # ''u202'' @ [hex ! (r mod 16)] @ appendString_loop (drop n (c # cs))
      else take n (c # cs) @ appendString_loop (drop n (c # cs)))"
  using assms by (simp add: Let_def)

lemma loop_token:
  "json_string_chars (appendString_loop s @ CHR 0x22 # rest) = Some (appendString_loop s @ [CHR 0x22], rest)"
proof (induction s rule: appendString_loop.induct)
  case 1
  show ?case by simp
next
  case (2 c cs)
  show ?case
  proof (cases "(of_char c :: nat) < 0x80")
    case True
    with 2(1) escape_byte_chars [OF True] show ?thesis by simp
  next
    case False
    obtain r n where d: "DecodeRuneInString (take 4 (c # cs)) = (r, n)" by force
    note eq = loop_high [OF False d]
    have fffd: "list_all hex_digit ''fffd''" by (simp add: hex_digit_def)
    have u202: "list_all hex_digit [CHR ''2'', CHR ''0'', CHR ''2'', hex ! (r mod 16)]"
      using hex_nth [of "r mod 16"] by (simp add: hex_digit_def)
    show ?thesis
    proof (cases "r = RuneError \<and> n = 1")
      case True
      have ih: "json_string_chars (appendString_loop (drop n (c # cs)) @ CHR 0x22 # rest)
                = Some (appendString_loop (drop n (c # cs)) @ [CHR 0x22], rest)"
        by (rule 2(2) [OF False d [symmetric], of r n]) (use True in simp_all)
      have "appendString_loop (c # cs) = CHR 0x5C # ''ufffd'' @ appendString_loop (drop n (c # cs))"
        unfolding eq if_P [OF True] ..
      with ih chars_u_escape [OF fffd] show ?thesis
        by (simp del: json_string_chars.simps)
    next
      case nerr: False
      show ?thesis
      proof (cases "r = 0x2028 \<or> r = 0x2029")
        case True
        have ih: "json_string_chars (appendString_loop (drop n (c # cs)) @ CHR 0x22 # rest)
                  = Some (appendString_loop (drop n (c # cs)) @ [CHR 0x22], rest)"
          by (rule 2(3) [OF False d [symmetric], of r n]) (use nerr True in simp_all)
        have "appendString_loop (c # cs) =
                CHR 0x5C # ''u202'' @ [hex ! (r mod 16)] @ appendString_loop (drop n (c # cs))"
          unfolding eq if_not_P [OF nerr] if_P [OF True] ..
        with ih chars_u_escape [OF u202] show ?thesis
          by (simp del: json_string_chars.simps)
      next
        case nls: False
        have ih: "json_string_chars (appendString_loop (drop n (c # cs)) @ CHR 0x22 # rest)
                  = Some (appendString_loop (drop n (c # cs)) @ [CHR 0x22], rest)"
          by (rule 2(4) [OF False d [symmetric], of r n]) (use nerr nls in simp_all)
        have e: "appendString_loop (c # cs) = take n (c # cs) @ appendString_loop (drop n (c # cs))"
          unfolding eq if_not_P [OF nerr] if_not_P [OF nls] ..
        from decode_cases [OF d False] nerr have "list_all plain (take n (c # cs))" by blast
        from chars_plain [OF this] ih show ?thesis
          unfolding e by (simp del: json_string_chars.simps take_Suc_Cons)
      qed
    qed
  qed
qed

lemma appendString_token: "json_string_token (appendString s @ rest) = Some (appendString s, rest)"
  by (simp add: json_string_token_def appendString_def loop_token)

lemma hex_digit_no_angle: "hex_digit c \<Longrightarrow> c \<noteq> CHR ''<'' \<and> c \<noteq> CHR ''>''"
  by (auto simp: hex_digit_def)

lemma escape_byte_no_angle:
  "(of_char c :: nat) < 0x80 \<Longrightarrow> CHR ''<'' \<notin> set (escape_byte c) \<and> CHR ''>'' \<notin> set (escape_byte c)"
proof -
  assume c: "(of_char c :: nat) < 0x80"
  have "hex_digit (hex ! ((of_char c :: nat) div 16))" using c by (intro hex_nth) simp
  from hex_digit_no_angle [OF this]
  have h1: "CHR ''<'' \<noteq> hex ! ((of_char c :: nat) div 16)" "CHR ''>'' \<noteq> hex ! ((of_char c :: nat) div 16)"
    by auto
  have "hex_digit (hex ! ((of_char c :: nat) mod 16))" by (intro hex_nth) simp
  from hex_digit_no_angle [OF this]
  have h2: "CHR ''<'' \<noteq> hex ! ((of_char c :: nat) mod 16)" "CHR ''>'' \<noteq> hex ! ((of_char c :: nat) mod 16)"
    by auto
  show ?thesis
  proof (cases "htmlSafeSet c")
    case True
    then show ?thesis by (auto simp: escape_byte_def htmlSafeSet_def)
  next
    case False
    then show ?thesis using h1 h2 by (simp add: escape_byte_def)
  qed
qed

lemma loop_no_angle: "CHR ''<'' \<notin> set (appendString_loop s) \<and> CHR ''>'' \<notin> set (appendString_loop s)"
proof (induction s rule: appendString_loop.induct)
  case 1
  show ?case by simp
next
  case (2 c cs)
  show ?case
  proof (cases "(of_char c :: nat) < 0x80")
    case True
    with 2(1) escape_byte_no_angle [OF True] show ?thesis by simp
  next
    case False
    obtain r n where d: "DecodeRuneInString (take 4 (c # cs)) = (r, n)" by force
    note eq = loop_high [OF False d]
    have hx: "CHR ''<'' \<noteq> hex ! (r mod 16) \<and> CHR ''>'' \<noteq> hex ! (r mod 16)"
      using hex_nth [of "r mod 16"] hex_digit_no_angle [of "hex ! (r mod 16)"] by auto
    show ?thesis
    proof (cases "r = RuneError \<and> n = 1")
      case True
      have ih: "CHR ''<'' \<notin> set (appendString_loop (drop n (c # cs))) \<and>
                CHR ''>'' \<notin> set (appendString_loop (drop n (c # cs)))"
        by (rule 2(2) [OF False d [symmetric], of r n]) (use True in simp_all)
      have "appendString_loop (c # cs) = CHR 0x5C # ''ufffd'' @ appendString_loop (drop n (c # cs))"
        unfolding eq if_P [OF True] ..
      with ih show ?thesis by simp
    next
      case nerr: False
      show ?thesis
      proof (cases "r = 0x2028 \<or> r = 0x2029")
        case True
        have ih: "CHR ''<'' \<notin> set (appendString_loop (drop n (c # cs))) \<and>
                  CHR ''>'' \<notin> set (appendString_loop (drop n (c # cs)))"
          by (rule 2(3) [OF False d [symmetric], of r n]) (use nerr True in simp_all)
        have "appendString_loop (c # cs) =
                CHR 0x5C # ''u202'' @ [hex ! (r mod 16)] @ appendString_loop (drop n (c # cs))"
          unfolding eq if_not_P [OF nerr] if_P [OF True] ..
        with ih hx show ?thesis by simp
      next
        case nls: False
        have ih: "CHR ''<'' \<notin> set (appendString_loop (drop n (c # cs))) \<and>
                  CHR ''>'' \<notin> set (appendString_loop (drop n (c # cs)))"
          by (rule 2(4) [OF False d [symmetric], of r n]) (use nerr nls in simp_all)
        have e: "appendString_loop (c # cs) = take n (c # cs) @ appendString_loop (drop n (c # cs))"
          unfolding eq if_not_P [OF nerr] if_not_P [OF nls] ..
        from decode_cases [OF d False] nerr have "list_all plain (take n (c # cs))" by blast
        then have "CHR ''<'' \<notin> set (take n (c # cs)) \<and> CHR ''>'' \<notin> set (take n (c # cs))"
          by (auto simp: list_all_iff plain_def)
        with ih show ?thesis unfolding e by (simp del: take_Suc_Cons)
      qed
    qed
  qed
qed

text \<open>
  C3. In the page that \<^verbatim>\<open>BuildPageHTML\<close> returns, the configuration, the definition, the
  element id, the background colour and the stylesheet text occur, between the fixed
  pieces of the driver script, as their JSON encodings and in no other form. The encoding
  of a string cannot end the script context, whatever the string holds: read from its
  first quote, the string token ends exactly where the encoding ends, for every text that
  follows it, and the encoding holds no angle bracket, so it cannot close the script
  element.
\<close>

theorem BuildPageHTML_embeds_JSON:
  assumes "BuildPageHTML env d opts = Inr html"
  shows "(\<exists>c. json_Marshal_config env (MermaidConfig opts) = Inr c \<and>
            html = page_head @ web_MermaidJS env @ page_between_scripts
                   @ web_MermaidZenUMLJS env @ page_driver_head
                   @ GenerateIconPackJS env (IconPacks opts)
                   @ driver_initialize @ c
                   @ driver_definition @ appendString d
                   @ driver_svgId @ appendString (SVGId opts)
                   @ driver_backgroundColor @ appendString (BackgroundColor opts)
                   @ driver_myCSS @ appendString (CSS opts)
                   @ driver_tail) \<and>
         json_Marshal_string d = Inr (appendString d) \<and>
         (\<forall>s rest. json_string_token (appendString s @ rest) = Some (appendString s, rest)) \<and>
         (\<forall>s. CHR ''<'' \<notin> set (appendString s) \<and> CHR ''>'' \<notin> set (appendString s))"
proof -
  have "\<exists>c. json_Marshal_config env (MermaidConfig opts) = Inr c \<and>
            html = page_head @ web_MermaidJS env @ page_between_scripts
                   @ web_MermaidZenUMLJS env @ page_driver_head
                   @ GenerateIconPackJS env (IconPacks opts)
                   @ driver_initialize @ c
                   @ driver_definition @ appendString d
                   @ driver_svgId @ appendString (SVGId opts)
                   @ driver_backgroundColor @ appendString (BackgroundColor opts)
                   @ driver_myCSS @ appendString (CSS opts)
                   @ driver_tail"
    using assms
    by (cases "json_Marshal_config env (MermaidConfig opts)")
       (auto simp: BuildPageHTML_def ToJSON_def json_Marshal_string_def)
  moreover have "\<forall>s. CHR ''<'' \<notin> set (appendString s) \<and> CHR ''>'' \<notin> set (appendString s)"
    using loop_no_angle by (simp add: appendString_def)
  ultimately show ?thesis
    using appendString_token by (simp add: json_Marshal_string_def)
qed

theorem BuildPageHTML_embeds_JSON_witness:
  "\<exists>html. BuildPageHTML example_env ''A-->B'' example_opts = Inr html \<and>
     json_string_token (appendString ''A-->B'' @ '';'') = Some (appendString ''A-->B'', '';'')"
proof -
  obtain html where h: "BuildPageHTML example_env ''A-->B'' example_opts = Inr html"
    by (simp add: BuildPageHTML_def ToJSON_def json_Marshal_string_def example_env_def
        example_opts_def)
  from BuildPageHTML_embeds_JSON [OF h] h show ?thesis by blast
qed

text \<open>
  C6. \<^verbatim>\<open>BuildPageHTML\<close> returns an error exactly when the configuration has no JSON
  encoding, and the error is then the encoder's error under the message of the first
  check. Whatever the definition, the element id, the background colour, the stylesheet
  text and the icon packs are, no other check fails.
\<close>

theorem BuildPageHTML_error_iff:
  "((\<exists>e. BuildPageHTML env d opts = Inl e) \<longleftrightarrow>
      (\<exists>err. json_Marshal_config env (MermaidConfig opts) = Inl err)) \<and>
   (\<forall>err. json_Marshal_config env (MermaidConfig opts) = Inl err \<longrightarrow>
      BuildPageHTML env d opts = Inl (wrap ''failed to serialize mermaid config: '' err))"
  by (cases "json_Marshal_config env (MermaidConfig opts)")
     (auto simp: BuildPageHTML_def ToJSON_def json_Marshal_string_def)

theorem BuildPageHTML_error_iff_witness:
  "BuildPageHTML example_env ''A-->B'' (example_opts\<lparr>MermaidConfig := None\<rparr>)
   = Inl (Errorf ''failed to serialize mermaid config: json: unsupported type: chan int''
           (Some (ExtError ''json: unsupported type: chan int'')))"
proof -
  have "json_Marshal_config example_env (MermaidConfig (example_opts\<lparr>MermaidConfig := None\<rparr>))
        = Inl (ExtError ''json: unsupported type: chan int'')"
    by (simp add: example_env_def)
  with BuildPageHTML_error_iff [of example_env "''A-->B''" "example_opts\<lparr>MermaidConfig := None\<rparr>"]
  show ?thesis by (simp add: wrap_def)
qed

section \<open>Render driver\<close>

text \<open>
  C5. The call works in a context whose deadline is 60 seconds (60 000 000 000 ns) after
  the tab was made, and the wait for the vector element is sent on that context. When the
  wait returns an error \<open>err\<close>, the completion record is read all the same, and the call
  fails with the message of the wait's error followed by the text that was read (by
  nothing, when the reading failed as well); the error of the wait is the wrapped error.
\<close>

theorem wait_failure_reports_completion_record:
  assumes "Context w b parent = (w1, b1, Inr (Some bctx))"
    and "open_tab w1 bctx = (w4, t0, t)"
    and "load_page env t d opts w4 = (w5, Inr ())"
    and "cdp t (WaitReady ''#container svg'') waited w5 = (w6, Inl err)"
  shows "trace w4 = trace w1 @ [NewContext t0 bctx, WithTimeout t t0 60000000000] \<and>
         (trace w6 = trace w5 @ [Sent t (WaitReady ''#container svg'')] \<or>
          trace w6 = trace w5 @ [Failed t (WaitReady ''#container svg'') err]) \<and>
         Render env w b parent d outputFormat opts =
           (case faults w6 of
              Some e # fs \<Rightarrow>
                (cancel t0 (cancel t (log (Failed t (Evaluate ResultScript) e) (w6\<lparr>faults := fs\<rparr>))),
                 b1,
                 Inl (Errorf (''mermaid rendering failed (waited for SVG): '' @ Error err
                        @ ''\<newline>render result: '') (Some err)))
            | _ \<Rightarrow>
                (cancel t0 (cancel t (log (Sent t (Evaluate ResultScript)) (w6\<lparr>faults := tl (faults w6)\<rparr>))),
                 b1,
                 Inl (Errorf (''mermaid rendering failed (waited for SVG): '' @ Error err
                        @ ''\<newline>render result: '' @ mmd_result (doc w6)) (Some err))))"
proof -
  have 1: "trace w4 = trace w1 @ [NewContext t0 bctx, WithTimeout t t0 60000000000]"
    using assms(2)
    by (auto simp: open_tab_def fresh_def log_def Let_def Second_def Millisecond_def)
  have 2: "trace w6 = trace w5 @ [Sent t (WaitReady ''#container svg'')] \<or>
           trace w6 = trace w5 @ [Failed t (WaitReady ''#container svg'') err]"
    using assms(4)
    by (auto simp: cdp_def waited_def log_def split: list.splits option.splits)
  have 3: "wait_rendered env t w5 =
           (case faults w6 of
              Some e # fs \<Rightarrow>
                (log (Failed t (Evaluate ResultScript) e) (w6\<lparr>faults := fs\<rparr>),
                 Inl (Errorf (''mermaid rendering failed (waited for SVG): '' @ Error err
                        @ ''\<newline>render result: '') (Some err)))
            | _ \<Rightarrow>
                (log (Sent t (Evaluate ResultScript)) (w6\<lparr>faults := tl (faults w6)\<rparr>),
                 Inl (Errorf (''mermaid rendering failed (waited for SVG): '' @ Error err
                        @ ''\<newline>render result: '' @ mmd_result (doc w6)) (Some err))))"
    using assms(4)
    by (simp add: wait_rendered_def cdp_def [of t "Evaluate ResultScript"] evaluate_def
        run_script_def log_def Let_def split: list.splits option.splits)
  have 4: "Render env w b parent d outputFormat opts =
             (cancel t0 (cancel t (fst (wait_rendered env t w5))), b1,
              case snd (wait_rendered env t w5) of Inl e \<Rightarrow> Inl e)"
    using assms(1,2,3) 3
    by (simp add: Render_def render_in_tab_def await_result_def bind_def
        split: list.splits option.splits)
  from 1 2 3 4 show ?thesis by (simp split: list.splits option.splits)
qed

theorem wait_failure_reports_completion_record_witness:
  \<open>snd (snd (Render (example_env\<lparr>load_document := \<lambda>h. failed_page\<rparr>) example_world
                (NewBrowser None) 0 ''not a diagram'' ''svg'' example_opts))
   = Inl (Errorf (''mermaid rendering failed (waited for SVG): context deadline exceeded''
            @ ''\<newline>render result: {"error":"No diagram type detected","success":false}'')
          (Some (ExtError ''context deadline exceeded'')))\<close>
proof -
  let ?env = "example_env\<lparr>load_document := \<lambda>h. failed_page\<rparr>"
  obtain w1 b1 where c: "Context example_world (NewBrowser None) 0 = (w1, b1, Inr (Some 2))"
    and n: "next_ctx w1 = 3" and f: "faults w1 = []"
    by (simp add: Context_def NewBrowser_def example_world_def fresh_def cdp_def ok_def
        log_def Let_def)
  obtain w4 where o: "open_tab w1 2 = (w4, 3, 4)" and f4: "faults w4 = []"
    using n f by (simp add: open_tab_def fresh_def log_def Let_def)
  obtain html where b: "BuildPageHTML ?env ''not a diagram'' example_opts = Inr html"
    by (simp add: BuildPageHTML_def ToJSON_def json_Marshal_string_def example_env_def
        example_opts_def)
  obtain w5 where l: "load_page ?env 4 ''not a diagram'' example_opts w4 = (w5, Inr ())"
    and f5: "faults w5 = []" and d5: "doc w5 = failed_page"
    using f4 by (simp add: load_page_def run_defs b Let_def)
  obtain w6 where wt: "cdp 4 (WaitReady ''#container svg'') waited w5
                       = (w6, Inl (ExtError ''context deadline exceeded''))"
    and f6: "faults w6 = []" and d6: "doc w6 = failed_page"
    using f5 d5 by (simp add: cdp_def waited_def log_def failed_page_def)
  from wait_failure_reports_completion_record [OF c o l wt, of "''svg''"] f6 d6
  show ?thesis by (simp add: failed_page_def)
qed

text \<open>
  C9. With an output format other than \<^verbatim>\<open>svg\<close>, \<^verbatim>\<open>png\<close> and \<^verbatim>\<open>pdf\<close>, \<^verbatim>\<open>Render\<close>
  never returns a result, and a call that gets as far as the switch (the page was loaded,
  the element appeared, the completion record reports success) returns the error
  \<^verbatim>\<open>unsupported output format\<close> with the format in its message.
\<close>

theorem Render_unsupported_format:
  assumes "outputFormat \<noteq> ''svg''" and "outputFormat \<noteq> ''png''" and "outputFormat \<noteq> ''pdf''"
  shows "(\<forall>res. snd (snd (Render env w b parent d outputFormat opts)) \<noteq> Inr res) \<and>
         (\<forall>w1 b1 bctx w4 t0 t w5 res.
            Context w b parent = (w1, b1, Inr (Some bctx)) \<longrightarrow>
            open_tab w1 bctx = (w4, t0, t) \<longrightarrow>
            await_result env t d opts w4 = (w5, Inr res) \<longrightarrow>
            Render env w b parent d outputFormat opts =
              (cancel t0 (cancel t w5), b1,
               Inl (Errorf (''unsupported output format: '' @ outputFormat) None)))"
proof -
  have sw: "switch_outputFormat env c outputFormat opts res w' =
              (w', Inl (Errorf (''unsupported output format: '' @ outputFormat) None))"
    for c res w'
    using assms by (simp add: switch_outputFormat_def fail_def)
  have tab: "\<exists>w'' e. render_in_tab env c d outputFormat opts w' = (w'', Inl e)" for c w'
    by (cases "await_result env c d opts w'")
       (auto simp: render_in_tab_def bind_def sw split: sum.splits)
  have 1: "snd (snd (Render env w b parent d outputFormat opts)) \<noteq> Inr res" for res
  proof -
    obtain w1 b1 r where c: "Context w b parent = (w1, b1, r)" by (metis prod_cases3)
    show ?thesis
    proof (cases r)
      case (Inl e)
      with c show ?thesis by (simp add: Render_def)
    next
      case (Inr o1)
      show ?thesis
      proof (cases o1)
        case None
        with c Inr show ?thesis by (simp add: Render_def)
      next
        case (Some bctx)
        obtain w4 t0 t where o: "open_tab w1 bctx = (w4, t0, t)" by (metis prod_cases3)
        from tab [of t w4] obtain w'' e where "render_in_tab env t d outputFormat opts w4 = (w'', Inl e)"
          by blast
        with c Inr Some o show ?thesis by (simp add: Render_def)
      qed
    qed
  qed
  have 2: "Render env w b parent d outputFormat opts =
              (cancel t0 (cancel t w5), b1,
               Inl (Errorf (''unsupported output format: '' @ outputFormat) None))"
    if "Context w b parent = (w1, b1, Inr (Some bctx))" and "open_tab w1 bctx = (w4, t0, t)"
      and "await_result env t d opts w4 = (w5, Inr res)"
    for w1 b1 bctx w4 t0 t w5 res
    using that by (simp add: Render_def render_in_tab_def bind_def sw)
  from 1 2 show ?thesis by blast
qed

theorem Render_unsupported_format_witness:
  "snd (snd (Render example_env example_world (NewBrowser None) 0 ''graph TD; A-->B;'' ''gif'' example_opts))
   = Inl (Errorf ''unsupported output format: gif'' None)"
proof -
  obtain w1 b1 where c: "Context example_world (NewBrowser None) 0 = (w1, b1, Inr (Some 2))"
    and n: "next_ctx w1 = 3" and f: "faults w1 = []"
    by (simp add: Context_def NewBrowser_def example_world_def fresh_def cdp_def ok_def
        log_def Let_def)
  obtain w4 where o: "open_tab w1 2 = (w4, 3, 4)" and f4: "faults w4 = []"
    using n f by (simp add: open_tab_def fresh_def log_def Let_def)
  obtain html where b: "BuildPageHTML example_env ''graph TD; A-->B;'' example_opts = Inr html"
    by (simp add: BuildPageHTML_def ToJSON_def json_Marshal_string_def example_env_def
        example_opts_def)
  have ld: "load_document example_env h = example_page" for h
    by (simp add: example_env_def)
  have cs: "container_svg example_page = Some example_svg"
    by (simp add: example_page_def)
  have um: "json_Unmarshal_renderResult example_env (mmd_result example_page)
            = Inr \<lparr>rr_Title = None, rr_Desc = None, rr_Success = True, rr_Error = []\<rparr>"
    by (simp add: example_env_def example_page_def)
  obtain w5 res where a: "await_result example_env 4 ''graph TD; A-->B;'' example_opts w4 = (w5, Inr res)"
    using f4
    by (simp add: await_result_def load_page_def wait_rendered_def read_result_def run_defs
        run_script_def b ld cs um Let_def)
  have "''gif'' \<noteq> ''svg''" "''gif'' \<noteq> ''png''" "''gif'' \<noteq> ''pdf''" by simp_all
  from Render_unsupported_format [OF this] c o a show ?thesis by fastforce
qed

section \<open>Artifact extractor\<close>

lemma map_of_set_attr_same: "map_of (set_attr n v as) n = Some v"
  by (induction as) auto

lemma map_of_set_attr_other: "m \<noteq> n \<Longrightarrow> map_of (set_attr n v as) m = map_of as m"
  by (induction as) auto

lemma js_inject: "js a = js b \<longleftrightarrow> a = b"
proof -
  have "inj (of_char :: char \<Rightarrow> nat)" by (rule injI) simp
  then show ?thesis by (simp add: js_def inj_map_eq_map)
qed

lemma char_of_js: "map char_of (js s) = s"
  by (simp add: js_def comp_def)

lemma split_whitespace_empty: "split_whitespace [] = [[]]"
  by (simp add: split_whitespace_def)

lemma fit_four:
  assumes "getAttribute svg (js ''viewBox'') = Some vb" and "split_whitespace vb = [x, y, W, H]"
  shows "fit_to_viewBox svg =
           removeProperty (js ''max-width'')
             (setAttribute (js ''height'') H (setAttribute (js ''width'') W svg))"
proof -
  have "vb \<noteq> []" using assms(2) split_whitespace_empty by auto
  with assms show ?thesis by (simp add: fit_to_viewBox_def)
qed

text \<open>
  C7. When the \<^verbatim>\<open>viewBox\<close> of the vector root splits at whitespace into exactly four
  pieces, the root that is serialized has the third piece as its \<^verbatim>\<open>width\<close> and the fourth
  as its \<^verbatim>\<open>height\<close>, has no \<^verbatim>\<open>max-width\<close> in its style, and is otherwise as before.
  Without a \<^verbatim>\<open>viewBox\<close>, or with one that does not split into four pieces, the root is
  serialized as it is. \<^verbatim>\<open>extractSVGFit\<close> returns that serialization.
\<close>

theorem extractSVGFit_fits_viewBox:
  "(\<forall>vb x y W H.
      getAttribute svg (js ''viewBox'') = Some vb \<longrightarrow> split_whitespace vb = [x, y, W, H] \<longrightarrow>
        getAttribute (fit_to_viewBox svg) (js ''width'') = Some W \<and>
        getAttribute (fit_to_viewBox svg) (js ''height'') = Some H \<and>
        js ''max-width'' \<notin> fst ` set (style (fit_to_viewBox svg)) \<and>
        (\<forall>n. n \<noteq> js ''width'' \<longrightarrow> n \<noteq> js ''height'' \<longrightarrow>
               getAttribute (fit_to_viewBox svg) n = getAttribute svg n) \<and>
        style (fit_to_viewBox svg) = filter (\<lambda>d. fst d \<noteq> js ''max-width'') (style svg) \<and>
        innerXML (fit_to_viewBox svg) = innerXML svg) \<and>
   (getAttribute svg (js ''viewBox'') = None \<longrightarrow> fit_to_viewBox svg = svg) \<and>
   (\<forall>vb. getAttribute svg (js ''viewBox'') = Some vb \<longrightarrow> length (split_whitespace vb) \<noteq> 4 \<longrightarrow>
      fit_to_viewBox svg = svg) \<and>
   (container_svg (doc w) = Some svg \<longrightarrow>
      snd (extractSVGFit env c w) =
        (case faults w of
           Some e # fs \<Rightarrow> Inl (wrap ''failed to extract SVG: '' e)
         | _ \<Rightarrow>
             if serializeToString env (fit_to_viewBox svg) = []
             then Inl (Errorf ''no SVG element found in rendered output'' None)
             else Inr (serializeToString env (fit_to_viewBox svg))))"
proof -
  have wh: "js ''width'' \<noteq> js ''height''" by (simp add: js_def)
  have 1: "getAttribute (fit_to_viewBox svg) (js ''width'') = Some W \<and>
        getAttribute (fit_to_viewBox svg) (js ''height'') = Some H \<and>
        js ''max-width'' \<notin> fst ` set (style (fit_to_viewBox svg)) \<and>
        (\<forall>n. n \<noteq> js ''width'' \<longrightarrow> n \<noteq> js ''height'' \<longrightarrow>
               getAttribute (fit_to_viewBox svg) n = getAttribute svg n) \<and>
        style (fit_to_viewBox svg) = filter (\<lambda>d. fst d \<noteq> js ''max-width'') (style svg) \<and>
        innerXML (fit_to_viewBox svg) = innerXML svg"
    if "getAttribute svg (js ''viewBox'') = Some vb" and "split_whitespace vb = [x, y, W, H]"
    for vb x y W H
    unfolding fit_four [OF that]
    using wh
    by (auto simp: getAttribute_def setAttribute_def removeProperty_def
        map_of_set_attr_same map_of_set_attr_other)
  have 2: "fit_to_viewBox svg = svg" if "getAttribute svg (js ''viewBox'') = None"
    using that by (simp add: fit_to_viewBox_def)
  have 3: "fit_to_viewBox svg = svg"
    if "getAttribute svg (js ''viewBox'') = Some vb" and "length (split_whitespace vb) \<noteq> 4" for vb
    using that by (simp add: fit_to_viewBox_def Let_def)
  have 4: "snd (extractSVGFit env c w) =
        (case faults w of
           Some e # fs \<Rightarrow> Inl (wrap ''failed to extract SVG: '' e)
         | _ \<Rightarrow>
             if serializeToString env (fit_to_viewBox svg) = []
             then Inl (Errorf ''no SVG element found in rendered output'' None)
             else Inr (serializeToString env (fit_to_viewBox svg)))"
    if "container_svg (doc w) = Some svg"
    using that
    by (simp add: extractSVGFit_def run_defs run_script_def Let_def
        split: list.splits option.splits)
  from 1 2 3 4 show ?thesis by blast
qed

theorem extractSVGFit_fits_viewBox_witness:
  \<open>getAttribute example_svg (js ''viewBox'') = Some (js ''0 0 120.5 80'') \<and>
   split_whitespace (js ''0 0 120.5 80'') = [js ''0'', js ''0'', js ''120.5'', js ''80''] \<and>
   getAttribute (fit_to_viewBox example_svg) (js ''width'') = Some (js ''120.5'') \<and>
   getAttribute (fit_to_viewBox example_svg) (js ''height'') = Some (js ''80'') \<and>
   snd (extractSVGFit example_env 4 (rendered_world example_page []))
     = Inr ''<svg id="my-svg" width="120.5" viewBox="0 0 120.5 80" height="80"><g></g></svg>''\<close>
proof -
  have a: "getAttribute example_svg (js ''viewBox'') = Some (js ''0 0 120.5 80'')"
    by (simp add: getAttribute_def example_svg_def js_def)
  have s: "split_whitespace (js ''0 0 120.5 80'') = [js ''0'', js ''0'', js ''120.5'', js ''80'']"
    by (simp add: split_whitespace_def js_def js_whitespace_def)
  have c: "container_svg (doc (rendered_world example_page [])) = Some example_svg"
    by (simp add: rendered_world_def example_page_def)
  have f: "faults (rendered_world example_page []) = []"
    by (simp add: rendered_world_def)
  note t = extractSVGFit_fits_viewBox [of example_svg "rendered_world example_page []" example_env 4]
  from t a s have wd: "getAttribute (fit_to_viewBox example_svg) (js ''width'') = Some (js ''120.5'')"
    and ht: "getAttribute (fit_to_viewBox example_svg) (js ''height'') = Some (js ''80'')"
    by blast+
  have fit: "fit_to_viewBox example_svg =
           removeProperty (js ''max-width'')
             (setAttribute (js ''height'') (js ''80'') (setAttribute (js ''width'') (js ''120.5'') example_svg))"
    using fit_four [OF a s] .
  have ser: \<open>serializeToString example_env (fit_to_viewBox example_svg)
        = ''<svg id="my-svg" width="120.5" viewBox="0 0 120.5 80" height="80"><g></g></svg>''\<close>
    unfolding fit
    by (simp add: example_env_def example_svg_def example_attr_def removeProperty_def
        setAttribute_def js_inject char_of_js)
  from t c f ser have "snd (extractSVGFit example_env 4 (rendered_world example_page []))
     = Inr (serializeToString example_env (fit_to_viewBox example_svg))"
    by simp
  with a s wd ht ser show ?thesis by simp
qed

lemma print_requests_append: "print_requests (xs @ ys) = print_requests xs @ print_requests ys"
  by (induction xs rule: print_requests.induct) simp_all

lemma fallback_text: \<open>bounds_text 0 0 800 600 = ''{"x":0,"y":0,"width":800,"height":600}''\<close>
  by (simp add: bounds_text_def number_text_def decimal.simps [of 800] decimal.simps [of 80]
      decimal.simps [of 8] decimal.simps [of 600] decimal.simps [of 60] decimal.simps [of 6]
      decimal.simps [of 0])

lemma example_text: \<open>bounds_text 8 8 121 80 = ''{"x":8,"y":8,"width":121,"height":80}''\<close>
  by (simp add: bounds_text_def number_text_def decimal.simps [of 121] decimal.simps [of 80]
      decimal.simps [of 8] decimal.simps [of 12] decimal.simps [of "Suc 0"])

text \<open>
  C2, as the claim states it, fails: with no vector element in the page the bounds script
  answers with a rectangle of its own, and the raster and the print capture go through.
\<close>

theorem missing_element_substitute_rectangle_counterexample:
  "container_svg (doc (rendered_world blank_page [])) = None \<and>
   snd (getSVGBounds example_env 4 (rendered_world blank_page []))
     = Inr \<lparr>rect_X = 0, rect_Y = 0, rect_Width = 800, rect_Height = 600\<rparr> \<and>
   snd (capturePNG example_env 4 example_opts (rendered_world blank_page [])) = Inr ''PNG'' \<and>
   snd (capturePDF example_env 4 (example_opts\<lparr>PdfFit := True\<rparr>) (rendered_world blank_page []))
     = Inr ''%PDF''"
proof -
  have u: "json_Unmarshal_clipRect example_env (bounds_text 0 0 800 600)
           = Inr \<lparr>rect_X = 0, rect_Y = 0, rect_Width = 800, rect_Height = 600\<rparr>"
    by (simp add: fallback_text example_env_def)
  have s: "screenshot example_env p bg clip = ''PNG''" "print example_env p bg ps = ''%PDF''"
    for p bg clip ps
    by (simp_all add: example_env_def)
  show ?thesis
    by (simp add: capturePNG_def capturePDF_def getSVGBounds_def run_defs run_script_def
        rendered_world_def blank_page_def example_opts_def u s Let_def)
qed


text \<open>
  C2, amended. When the bounds query finds no vector element, the script answers with the
  rectangle x = 0, y = 0, width = 800, height = 600: \<^verbatim>\<open>getSVGBounds\<close> fails only when the
  evaluation round trip fails or the answer does not decode, and otherwise returns what
  the answer decodes to. With that rectangle and no failing round trip, the raster capture
  is clipped to it and succeeds, and the print fitted to content uses it and succeeds.
\<close>

theorem missing_element_substitute_rectangle:
  assumes "container_svg (doc w) = None"
  shows \<open>getSVGBounds env c w =
          (case faults w of
             Some e # fs \<Rightarrow>
               (log (Failed c (Evaluate BoundsScript) e) (w\<lparr>faults := fs\<rparr>),
                Inl (wrap ''failed to get SVG bounds: '' e))
           | _ \<Rightarrow>
               (log (Sent c (Evaluate BoundsScript)) (w\<lparr>faults := tl (faults w)\<rparr>),
                case json_Unmarshal_clipRect env ''{"x":0,"y":0,"width":800,"height":600}'' of
                  Inl err \<Rightarrow> Inl (wrap ''failed to parse SVG bounds: '' err)
                | Inr bounds \<Rightarrow> Inr bounds)) \<and>
         (faults w = [] \<longrightarrow>
          json_Unmarshal_clipRect env ''{"x":0,"y":0,"width":800,"height":600}''
            = Inr \<lparr>rect_X = 0, rect_Y = 0, rect_Width = 800, rect_Height = 600\<rparr> \<longrightarrow>
            (\<exists>data. snd (capturePNG env c opts w) = Inr data) \<and>
            Sent c (CaptureScreenshot ''png''
                     \<lparr>clip_X = 0, clip_Y = 0, clip_Width = 800, clip_Height = 600, clip_Scale = 1\<rparr>
                     True)
              \<in> set (trace (fst (capturePNG env c opts w))) \<and>
            (PdfFit opts \<longrightarrow>
               (\<exists>data. snd (capturePDF env c opts w) = Inr data) \<and>
               print_requests (trace (fst (capturePDF env c opts w))) =
                 print_requests (trace w) @
                 [\<lparr>PaperWidth = Some (800 / 96), PaperHeight = Some (600 / 96),
                   MarginTop = Some 0, MarginBottom = Some 0, MarginLeft = Some 0,
                   MarginRight = Some 0, PageRanges = Some ''1-1'',
                   PrintBackground = Some True\<rparr>]))\<close>
proof -
  have 1: \<open>getSVGBounds env c w =
          (case faults w of
             Some e # fs \<Rightarrow>
               (log (Failed c (Evaluate BoundsScript) e) (w\<lparr>faults := fs\<rparr>),
                Inl (wrap ''failed to get SVG bounds: '' e))
           | _ \<Rightarrow>
               (log (Sent c (Evaluate BoundsScript)) (w\<lparr>faults := tl (faults w)\<rparr>),
                case json_Unmarshal_clipRect env ''{"x":0,"y":0,"width":800,"height":600}'' of
                  Inl err \<Rightarrow> Inl (wrap ''failed to parse SVG bounds: '' err)
                | Inr bounds \<Rightarrow> Inr bounds))\<close>
    using assms
    by (simp add: getSVGBounds_def run_defs run_script_def fallback_text Let_def
        split: list.splits option.splits sum.splits)
  have 2: "(\<exists>data. snd (capturePNG env c opts w) = Inr data) \<and>
            Sent c (CaptureScreenshot ''png''
                     \<lparr>clip_X = 0, clip_Y = 0, clip_Width = 800, clip_Height = 600, clip_Scale = 1\<rparr>
                     True)
              \<in> set (trace (fst (capturePNG env c opts w)))"
    if "faults w = []" and \<open>json_Unmarshal_clipRect env ''{"x":0,"y":0,"width":800,"height":600}''
            = Inr \<lparr>rect_X = 0, rect_Y = 0, rect_Width = 800, rect_Height = 600\<rparr>\<close>
    using that assms
    by (simp add: capturePNG_def getSVGBounds_def run_defs run_script_def fallback_text Let_def)
  have 3: "(\<exists>data. snd (capturePDF env c opts w) = Inr data) \<and>
               print_requests (trace (fst (capturePDF env c opts w))) =
                 print_requests (trace w) @
                 [\<lparr>PaperWidth = Some (800 / 96), PaperHeight = Some (600 / 96),
                   MarginTop = Some 0, MarginBottom = Some 0, MarginLeft = Some 0,
                   MarginRight = Some 0, PageRanges = Some ''1-1'',
                   PrintBackground = Some True\<rparr>]"
    if "faults w = []" and \<open>json_Unmarshal_clipRect env ''{"x":0,"y":0,"width":800,"height":600}''
            = Inr \<lparr>rect_X = 0, rect_Y = 0, rect_Width = 800, rect_Height = 600\<rparr>\<close>
      and "PdfFit opts"
    using that assms
    by (simp add: capturePDF_def getSVGBounds_def run_defs run_script_def fallback_text Let_def
        PrintToPDF_default_def print_requests_append)
  from 1 2 3 show ?thesis by blast
qed

theorem missing_element_substitute_rectangle_witness:
  "container_svg (doc (rendered_world blank_page [])) = None \<and>
   (\<exists>data. snd (capturePNG example_env 4 example_opts (rendered_world blank_page [])) = Inr data) \<and>
   snd (getSVGBounds example_env 4 (rendered_world blank_page []))
     = Inr \<lparr>rect_X = 0, rect_Y = 0, rect_Width = 800, rect_Height = 600\<rparr>"
proof -
  let ?w = "rendered_world blank_page []"
  have a: "container_svg (doc ?w) = None" and f: "faults ?w = []"
    by (simp_all add: rendered_world_def blank_page_def)
  have u: \<open>json_Unmarshal_clipRect example_env ''{"x":0,"y":0,"width":800,"height":600}''
           = Inr \<lparr>rect_X = 0, rect_Y = 0, rect_Width = 800, rect_Height = 600\<rparr>\<close>
    by (simp add: example_env_def)
  from missing_element_substitute_rectangle [OF a, of example_env 4 example_opts] f u a
  show ?thesis by simp
qed


lemma cdp_cases:
  "cdp c cmd eff w =
     (if \<exists>e fs. faults w = Some e # fs
      then (log (Failed c cmd (the (hd (faults w)))) (w\<lparr>faults := tl (faults w)\<rparr>), Inl (the (hd (faults w))))
      else eff (log (Sent c cmd) (w\<lparr>faults := tl (faults w)\<rparr>)))"
  by (auto simp: cdp_def split: list.splits option.splits)

lemma capturePDF_requests_default:
  "\<not> PdfFit opts \<Longrightarrow>
      print_requests (trace (fst (capturePDF env c opts w))) = print_requests (trace w) \<or>
      print_requests (trace (fst (capturePDF env c opts w))) =
        print_requests (trace w) @
        [\<lparr>PaperWidth = None, PaperHeight = None,
          MarginTop = None, MarginBottom = None, MarginLeft = None, MarginRight = None,
          PageRanges = None, PrintBackground = Some True\<rparr>]"
  by (simp add: capturePDF_def cdp_cases bind_def return_def fail_def wrapped_def ignored_def
      ok_def log_def wrap_def background_set_def printed_def Let_def
      PrintToPDF_default_def print_requests_append)

lemma capturePDF_requests_fit:
  "PdfFit opts \<Longrightarrow>
      json_Unmarshal_clipRect env (snd (run_script env BoundsScript (doc w))) = Inr b \<Longrightarrow>
      print_requests (trace (fst (capturePDF env c opts w))) = print_requests (trace w) \<or>
      print_requests (trace (fst (capturePDF env c opts w))) =
        print_requests (trace w) @
        [\<lparr>PaperWidth = Some ((of_int \<lceil>rect_Width b\<rceil> + 2 * rect_X b) / 96),
          PaperHeight = Some ((of_int \<lceil>rect_Height b\<rceil> + 2 * rect_Y b) / 96),
          MarginTop = Some 0, MarginBottom = Some 0, MarginLeft = Some 0, MarginRight = Some 0,
          PageRanges = Some ''1-1'', PrintBackground = Some True\<rparr>]"
  by (auto simp: capturePDF_def getSVGBounds_def cdp_cases bind_def return_def fail_def wrapped_def ignored_def
      ok_def log_def wrap_def background_set_def printed_def evaluate_def run_script_def Let_def
      PrintToPDF_default_def print_requests_append split: option.splits)

lemma capturePDF_requests_no_fault:
  "(PdfFit opts \<longrightarrow> faults w = [] \<longrightarrow>
      json_Unmarshal_clipRect env (snd (run_script env BoundsScript (doc w))) = Inr b \<longrightarrow>
      print_requests (trace (fst (capturePDF env c opts w))) =
        print_requests (trace w) @
        [\<lparr>PaperWidth = Some ((of_int \<lceil>rect_Width b\<rceil> + 2 * rect_X b) / 96),
          PaperHeight = Some ((of_int \<lceil>rect_Height b\<rceil> + 2 * rect_Y b) / 96),
          MarginTop = Some 0, MarginBottom = Some 0, MarginLeft = Some 0, MarginRight = Some 0,
          PageRanges = Some ''1-1'', PrintBackground = Some True\<rparr>]) \<and>
   (\<not> PdfFit opts \<longrightarrow> faults w = [] \<longrightarrow>
      print_requests (trace (fst (capturePDF env c opts w))) =
        print_requests (trace w) @
        [\<lparr>PaperWidth = None, PaperHeight = None,
          MarginTop = None, MarginBottom = None, MarginLeft = None, MarginRight = None,
          PageRanges = None, PrintBackground = Some True\<rparr>])"
  by (auto simp: capturePDF_def getSVGBounds_def run_defs run_script_def Let_def
      PrintToPDF_default_def print_requests_append split: option.splits)



text \<open>
  C4. Let \<open>b\<close> be the rectangle that \<^verbatim>\<open>getSVGBounds\<close> decodes from the answer of the
  bounds script. With \<^verbatim>\<open>PdfFit\<close>, a print request of \<^verbatim>\<open>capturePDF\<close> has the paper width
  (ceil(width) + 2 x) / 96 and the paper height (ceil(height) + 2 y) / 96, the four margins
  0 and the page range \<^verbatim>\<open>1-1\<close>; without it, no paper size, margin or page range is set.
  The call makes at most one print request, and exactly one when no round trip fails.
  Floats are real numbers here.
\<close>

theorem capturePDF_print_params:
  "(PdfFit opts \<longrightarrow>
      json_Unmarshal_clipRect env (snd (run_script env BoundsScript (doc w))) = Inr b \<longrightarrow>
      (print_requests (trace (fst (capturePDF env c opts w))) = print_requests (trace w) \<or>
       print_requests (trace (fst (capturePDF env c opts w))) =
         print_requests (trace w) @
         [\<lparr>PaperWidth = Some ((of_int \<lceil>rect_Width b\<rceil> + 2 * rect_X b) / 96),
           PaperHeight = Some ((of_int \<lceil>rect_Height b\<rceil> + 2 * rect_Y b) / 96),
           MarginTop = Some 0, MarginBottom = Some 0, MarginLeft = Some 0, MarginRight = Some 0,
           PageRanges = Some ''1-1'', PrintBackground = Some True\<rparr>]) \<and>
      (faults w = [] \<longrightarrow>
       print_requests (trace (fst (capturePDF env c opts w))) =
         print_requests (trace w) @
         [\<lparr>PaperWidth = Some ((of_int \<lceil>rect_Width b\<rceil> + 2 * rect_X b) / 96),
           PaperHeight = Some ((of_int \<lceil>rect_Height b\<rceil> + 2 * rect_Y b) / 96),
           MarginTop = Some 0, MarginBottom = Some 0, MarginLeft = Some 0, MarginRight = Some 0,
           PageRanges = Some ''1-1'', PrintBackground = Some True\<rparr>])) \<and>
   (\<not> PdfFit opts \<longrightarrow>
      (print_requests (trace (fst (capturePDF env c opts w))) = print_requests (trace w) \<or>
       print_requests (trace (fst (capturePDF env c opts w))) =
         print_requests (trace w) @
         [\<lparr>PaperWidth = None, PaperHeight = None,
           MarginTop = None, MarginBottom = None, MarginLeft = None, MarginRight = None,
           PageRanges = None, PrintBackground = Some True\<rparr>]) \<and>
      (faults w = [] \<longrightarrow>
       print_requests (trace (fst (capturePDF env c opts w))) =
         print_requests (trace w) @
         [\<lparr>PaperWidth = None, PaperHeight = None,
           MarginTop = None, MarginBottom = None, MarginLeft = None, MarginRight = None,
           PageRanges = None, PrintBackground = Some True\<rparr>]))"
  using capturePDF_requests_fit [of opts env w b c] capturePDF_requests_default [of opts env c w]
    capturePDF_requests_no_fault [of opts w env b c]
  by blast

theorem capturePDF_print_params_witness:
  "print_requests (trace (fst (capturePDF example_env 4 (example_opts\<lparr>PdfFit := True\<rparr>)
      (rendered_world example_page [])))) =
     [\<lparr>PaperWidth = Some (137 / 96), PaperHeight = Some 1,
       MarginTop = Some 0, MarginBottom = Some 0, MarginLeft = Some 0, MarginRight = Some 0,
       PageRanges = Some ''1-1'', PrintBackground = Some True\<rparr>] \<and>
   print_requests (trace (fst (capturePDF example_env 4 example_opts
      (rendered_world example_page [])))) =
     [\<lparr>PaperWidth = None, PaperHeight = None,
       MarginTop = None, MarginBottom = None, MarginLeft = None, MarginRight = None,
       PageRanges = None, PrintBackground = Some True\<rparr>]"
proof -
  let ?w = "rendered_world example_page []"
  have f: "faults ?w = []" and t: "trace ?w = []" by (simp_all add: rendered_world_def)
  have "snd (run_script example_env BoundsScript (doc ?w)) = bounds_text 8 8 121 80"
    by (simp add: run_script_def rendered_world_def example_page_def example_svg_def)
  then have u: "json_Unmarshal_clipRect example_env (snd (run_script example_env BoundsScript (doc ?w)))
        = Inr \<lparr>rect_X = 8, rect_Y = 8, rect_Width = 121, rect_Height = 80\<rparr>"
    by (simp add: example_text example_env_def)
  have p: "PdfFit (example_opts\<lparr>PdfFit := True\<rparr>)" "\<not> PdfFit example_opts"
    by (simp_all add: example_opts_def)
  from capturePDF_print_params [where opts = "example_opts\<lparr>PdfFit := True\<rparr>" and w = ?w
      and env = example_env and c = 4
      and b = "\<lparr>rect_X = 8, rect_Y = 8, rect_Width = 121, rect_Height = 80\<rparr>"] p(1) f u t
  have 1: "print_requests (trace (fst (capturePDF example_env 4 (example_opts\<lparr>PdfFit := True\<rparr>) ?w))) =
     [\<lparr>PaperWidth = Some (137 / 96), PaperHeight = Some 1,
       MarginTop = Some 0, MarginBottom = Some 0, MarginLeft = Some 0, MarginRight = Some 0,
       PageRanges = Some ''1-1'', PrintBackground = Some True\<rparr>]"
    by simp
  from capturePDF_print_params [where opts = example_opts and w = ?w and env = example_env
      and c = 4] p(2) f t
  have 2: "print_requests (trace (fst (capturePDF example_env 4 example_opts ?w))) =
     [\<lparr>PaperWidth = None, PaperHeight = None,
       MarginTop = None, MarginBottom = None, MarginLeft = None, MarginRight = None,
       PageRanges = None, PrintBackground = Some True\<rparr>]"
    by simp
  from 1 2 show ?thesis by simp
qed

text \<open>
  C1 fails on the code where the capture itself fails. With the transparent background
  requested and a screenshot (or print) round trip that returns an error, the call
  returns that error right away: the last event is the failed capture, no reset of the
  override was sent, and the tab still has the transparent override.
\<close>

theorem capture_error_leaves_override:
  "(let opts = example_opts\<lparr>BackgroundColor := ''transparent''\<rparr>;
        w = rendered_world example_page [None, None, None, Some (ExtError ''target closed'')];
        (w', r) = capturePNG example_env 4 opts w
    in r = Inl (Errorf ''failed to capture PNG: target closed'' (Some (ExtError ''target closed''))) \<and>
       bg_override w' = Some (RGBA 0 0 0 0) \<and>
       trace w' =
         [Sent 4 (Evaluate BoundsScript),
          Sent 4 (SetDeviceMetricsOverride 129 88 1 False),
          Sleep 100000000,
          Sent 4 (SetDefaultBackgroundColorOverride (Some (RGBA 0 0 0 0))),
          Failed 4 (CaptureScreenshot ''png''
                     \<lparr>clip_X = 8, clip_Y = 8, clip_Width = 121, clip_Height = 80, clip_Scale = 1\<rparr>
                     True) (ExtError ''target closed'')]) \<and>
   (let opts = example_opts\<lparr>BackgroundColor := ''transparent''\<rparr>;
        w = rendered_world example_page [None, Some (ExtError ''target closed'')];
        (w', r) = capturePDF example_env 4 opts w
    in r = Inl (Errorf ''failed to generate PDF: target closed'' (Some (ExtError ''target closed''))) \<and>
       bg_override w' = Some (RGBA 0 0 0 0) \<and>
       trace w' =
         [Sent 4 (SetDefaultBackgroundColorOverride (Some (RGBA 0 0 0 0))),
          Failed 4 (PrintToPDF (PrintToPDF_default\<lparr>PrintBackground := Some True\<rparr>))
            (ExtError ''target closed'')])"
proof -
  have t: \<open>bounds_text 8 8 121 80 = ''{"x":8,"y":8,"width":121,"height":80}''\<close>
    by (simp add: bounds_text_def number_text_def decimal.simps [of 121] decimal.simps [of 80]
        decimal.simps [of 8] decimal.simps [of 12] decimal.simps [of "Suc 0"])
  have u: "json_Unmarshal_clipRect example_env (bounds_text 8 8 121 80)
           = Inr \<lparr>rect_X = 8, rect_Y = 8, rect_Width = 121, rect_Height = 80\<rparr>"
    by (simp add: t example_env_def)
  show ?thesis
    by (simp add: capturePNG_def capturePDF_def getSVGBounds_def run_defs run_script_def
        rendered_world_def example_page_def example_svg_def example_opts_def u Let_def
        transparent_def int64_def Millisecond_def)
qed

text \<open>On the path where the capture succeeds the reset is sent, and the override is gone.\<close>

lemma capture_success_resets_override:
  "BackgroundColor opts = ''transparent'' \<Longrightarrow> faults w = [] \<Longrightarrow>
   json_Unmarshal_clipRect env (snd (run_script env BoundsScript (doc w))) = Inr b \<Longrightarrow>
   bg_override (fst (capturePNG env c opts w)) = None \<and>
   last (trace (fst (capturePNG env c opts w))) = Sent c (SetDefaultBackgroundColorOverride None)"
  by (auto simp: capturePNG_def getSVGBounds_def run_defs run_script_def Let_def
      split: option.splits)

end
